theory Spec2Isabelle
  imports Complex_Main "HOL-Library.AList"
begin

text \<open>
  A model of the Universalis API wrapper: the key normalizer \<open>_pep8_key_name\<close>, the record
  classes built from decoded responses (\<open>CurrentData\<close>, \<open>HistoryData\<close> and their entries),
  the throttled gateway \<open>_request\<close> and the query methods on top of it. Python objects are
  their class and instance dictionary, exceptions are values of the type \<open>error\<close>, and the
  clock, the server and the global \<open>API_CLASS\<close> are passed to the functions that read them.
  The definitions come first; the properties of the code follow, each under the claim it
  settles.
\<close>

section \<open>Strings\<close>

text \<open>
  Python strings are modelled as lists of 8-bit characters, read as the code points 0 to 255
  (ASCII and Latin-1). On these code points \<open>str.isupper\<close> of a single character holds
  for A to Z and for the code points 192 to 222 except 215, and \<open>str.lower\<close> adds 32 to
  such a character and leaves every other character as it is. Code points above 255 are
  outside the model.
\<close>

definition isupper :: "char \<Rightarrow> bool" where
  "isupper c = (let n = (of_char c :: nat) in
     (65 \<le> n \<and> n \<le> 90) \<or> (192 \<le> n \<and> n \<le> 222 \<and> n \<noteq> 215))"

definition lower_chr :: "char \<Rightarrow> char" where
  "lower_chr c = (if isupper c then char_of ((of_char c :: nat) + 32) else c)"

definition lower :: "string \<Rightarrow> string" where
  "lower s = map lower_chr s"

text \<open>
  \<open>sub in s\<close> on strings: \<open>sub\<close> occurs in \<open>s\<close> as a contiguous substring. (This and
  \<open>replace\<close> do not look into the characters, and are defined for lists of any type.)
\<close>

fun str_contains :: "'a list \<Rightarrow> 'a list \<Rightarrow> bool" where
  "str_contains sub [] = (sub = [])"
| "str_contains sub (c # cs) = (take (length sub) (c # cs) = sub \<or> str_contains sub cs)"

text \<open>
  \<open>s.replace(old, new)\<close>: every occurrence of \<open>old\<close>, found from the left without
  overlap, is replaced. With an empty \<open>old\<close> Python puts \<open>new\<close> before every character and
  at the end.
\<close>

function replace :: "'a list \<Rightarrow> 'a list \<Rightarrow> 'a list \<Rightarrow> 'a list" where
  "replace old new s =
     (if old = [] then new @ concat (map (\<lambda>c. c # new) s)
      else if s = [] then []
      else if take (length old) s = old then new @ replace old new (drop (length old) s)
      else hd s # replace old new (tl s))"
  by pat_completeness auto
termination
  by (relation "measure (\<lambda>(old, new, s). length s)") auto

declare replace.simps [simp del]

section \<open>Schema normalizer\<close>

definition PRE_FORMATTED_KEYS :: "(string \<times> string) list" where
  "PRE_FORMATTED_KEYS = [(''HQ'', ''_hq''), (''ID'', ''_id''), (''NQ'', ''_nq'')]"

definition IGNORED_KEYS :: "string list" where
  "IGNORED_KEYS = []"

text \<open>The loop of \<open>_pep8_key_name\<close> over \<open>key_name[1:]\<close>, with \<open>temp\<close> as accumulator.\<close>

fun pep8_loop :: "string \<Rightarrow> string \<Rightarrow> string" where
  "pep8_loop temp [] = temp"
| "pep8_loop temp (e # es) =
     (if isupper e then pep8_loop (temp @ CHR ''_'' # lower [e]) es
      else pep8_loop (temp @ [e]) es)"

text \<open>The loop over \<open>pre_formatted_keys.items()\<close>, in the order of the table.\<close>

fun pep8_substitute :: "(string \<times> string) list \<Rightarrow> string \<Rightarrow> string" where
  "pep8_substitute [] key_name = key_name"
| "pep8_substitute ((key, val) # rest) key_name =
     (if str_contains key key_name then pep8_substitute rest (replace key val key_name)
      else pep8_substitute rest key_name)"

definition pep8_key_name_with :: "string list \<Rightarrow> (string \<times> string) list \<Rightarrow> string \<Rightarrow> string" where
  "pep8_key_name_with ignored_keys pre_formatted_keys key_name =
     (if key_name \<in> set ignored_keys then key_name
      else let key_name' = pep8_substitute pre_formatted_keys key_name
           in pep8_loop (lower (take 1 key_name')) (drop 1 key_name'))"

text \<open>\<open>_pep8_key_name\<close> called with the key only: both tables take their defaults.\<close>

definition pep8_key_name :: "string \<Rightarrow> string" where
  "pep8_key_name key_name = pep8_key_name_with IGNORED_KEYS PRE_FORMATTED_KEYS key_name"

section \<open>The normalizer on strings of code points\<close>

text \<open>
  A Python \<open>str\<close> is a sequence of code points, from 0 to 1114111, and \<open>_pep8_key_name\<close>
  takes any of them. The records above are keyed by the names of the service, which are
  ASCII, and their strings are lists of 8-bit characters; for the properties of the
  normalizer on every key it is stated here once more, on lists of code points, with
  \<open>str.isupper\<close> and \<open>str.lower\<close> of a single character as CPython 3.11 has them (the
  Unicode Character Database 14.0.0). A row \<open>(a, b, s)\<close> of a table stands for the code
  points \<open>a, a + s, a + 2 s, ...\<close> up to \<open>b\<close>.
\<close>

type_synonym row = "int \<times> int \<times> int"

fun in_row :: "int \<Rightarrow> row \<Rightarrow> bool" where
  "in_row c (a, b, s) = (a \<le> c \<and> c \<le> b \<and> (c - a) mod s = 0)"

text \<open>The code points \<open>c\<close> for which \<open>chr(c).isupper()\<close> holds: 1951 in 166 rows.\<close>

definition uppercase_rows :: "row list" where
  "uppercase_rows =
    [
     (65, 90, 1), (192, 214, 1), (216, 222, 1), (256, 310, 2),
     (313, 327, 2), (330, 376, 2), (377, 381, 2), (385, 386, 1),
     (388, 390, 2), (391, 393, 2), (394, 395, 1), (398, 401, 1),
     (403, 404, 1), (406, 408, 1), (412, 413, 1), (415, 416, 1),
     (418, 422, 2), (423, 425, 2), (428, 430, 2), (431, 433, 2),
     (434, 435, 1), (437, 439, 2), (440, 440, 1), (444, 444, 1),
     (452, 452, 1), (455, 455, 1), (458, 458, 1), (461, 475, 2),
     (478, 494, 2), (497, 497, 1), (500, 502, 2), (503, 504, 1),
     (506, 562, 2), (570, 571, 1), (573, 574, 1), (577, 579, 2),
     (580, 582, 1), (584, 590, 2), (880, 882, 2), (886, 886, 1),
     (895, 895, 1), (902, 904, 2), (905, 906, 1), (908, 910, 2),
     (911, 913, 2), (914, 929, 1), (931, 939, 1), (975, 975, 1),
     (978, 980, 1), (984, 1006, 2), (1012, 1012, 1), (1015, 1017, 2),
     (1018, 1018, 1), (1021, 1071, 1), (1120, 1152, 2), (1162, 1216, 2),
     (1217, 1229, 2), (1232, 1326, 2), (1329, 1366, 1), (4256, 4293, 1),
     (4295, 4295, 1), (4301, 4301, 1), (5024, 5109, 1), (7312, 7354, 1),
     (7357, 7359, 1), (7680, 7828, 2), (7838, 7934, 2), (7944, 7951, 1),
     (7960, 7965, 1), (7976, 7983, 1), (7992, 7999, 1), (8008, 8013, 1),
     (8025, 8031, 2), (8040, 8047, 1), (8120, 8123, 1), (8136, 8139, 1),
     (8152, 8155, 1), (8168, 8172, 1), (8184, 8187, 1), (8450, 8450, 1),
     (8455, 8455, 1), (8459, 8461, 1), (8464, 8466, 1), (8469, 8469, 1),
     (8473, 8477, 1), (8484, 8490, 2), (8491, 8493, 1), (8496, 8499, 1),
     (8510, 8511, 1), (8517, 8517, 1), (8544, 8559, 1), (8579, 8579, 1),
     (9398, 9423, 1), (11264, 11311, 1), (11360, 11362, 2), (11363, 11364, 1),
     (11367, 11373, 2), (11374, 11376, 1), (11378, 11378, 1), (11381, 11381, 1),
     (11390, 11392, 1), (11394, 11490, 2), (11499, 11501, 2), (11506, 11506, 1),
     (42560, 42604, 2), (42624, 42650, 2), (42786, 42798, 2), (42802, 42862, 2),
     (42873, 42877, 2), (42878, 42886, 2), (42891, 42893, 2), (42896, 42898, 2),
     (42902, 42922, 2), (42923, 42926, 1), (42928, 42932, 1), (42934, 42948, 2),
     (42949, 42951, 1), (42953, 42953, 1), (42960, 42960, 1), (42966, 42968, 2),
     (42997, 42997, 1), (65313, 65338, 1), (66560, 66599, 1), (66736, 66771, 1),
     (66928, 66938, 1), (66940, 66954, 1), (66956, 66962, 1), (66964, 66965, 1),
     (68736, 68786, 1), (71840, 71871, 1), (93760, 93791, 1), (119808, 119833, 1),
     (119860, 119885, 1), (119912, 119937, 1), (119964, 119966, 2), (119967, 119967, 1),
     (119970, 119970, 1), (119973, 119974, 1), (119977, 119980, 1), (119982, 119989, 1),
     (120016, 120041, 1), (120068, 120069, 1), (120071, 120074, 1), (120077, 120084, 1),
     (120086, 120092, 1), (120120, 120121, 1), (120123, 120126, 1), (120128, 120132, 1),
     (120134, 120134, 1), (120138, 120144, 1), (120172, 120197, 1), (120224, 120249, 1),
     (120276, 120301, 1), (120328, 120353, 1), (120380, 120405, 1), (120432, 120457, 1),
     (120488, 120512, 1), (120546, 120570, 1), (120604, 120628, 1), (120662, 120686, 1),
     (120720, 120744, 1), (120778, 120778, 1), (125184, 125217, 1), (127280, 127305, 1),
     (127312, 127337, 1), (127344, 127369, 1)
    ]"

definition isupper_cp :: "int \<Rightarrow> bool" where
  "isupper_cp c = list_ex (in_row c) uppercase_rows"

text \<open>
  The code points that \<open>str.lower\<close> changes into one other code point: a row
  \<open>(a, b, s, a')\<close> sends \<open>a\<close> to \<open>a'\<close>, \<open>a + s\<close> to \<open>a' + s\<close> and so on, 1432 code points
  in 181 rows. The one code point that becomes two is 304, the capital I with a dot above,
  which becomes 105 and 775. All others are left as they are.
\<close>

definition lowercase_rows :: "(int \<times> int \<times> int \<times> int) list" where
  "lowercase_rows =
    [
     (65, 90, 1, 97), (192, 214, 1, 224), (216, 222, 1, 248),
     (256, 302, 2, 257), (306, 310, 2, 307), (313, 327, 2, 314),
     (330, 374, 2, 331), (376, 376, 1, 255), (377, 381, 2, 378),
     (385, 385, 1, 595), (386, 388, 2, 387), (390, 390, 1, 596),
     (391, 391, 1, 392), (393, 394, 1, 598), (395, 395, 1, 396),
     (398, 398, 1, 477), (399, 399, 1, 601), (400, 400, 1, 603),
     (401, 401, 1, 402), (403, 403, 1, 608), (404, 404, 1, 611),
     (406, 406, 1, 617), (407, 407, 1, 616), (408, 408, 1, 409),
     (412, 412, 1, 623), (413, 413, 1, 626), (415, 415, 1, 629),
     (416, 420, 2, 417), (422, 422, 1, 640), (423, 423, 1, 424),
     (425, 425, 1, 643), (428, 428, 1, 429), (430, 430, 1, 648),
     (431, 431, 1, 432), (433, 434, 1, 650), (435, 437, 2, 436),
     (439, 439, 1, 658), (440, 440, 1, 441), (444, 444, 1, 445),
     (452, 452, 1, 454), (453, 453, 1, 454), (455, 455, 1, 457),
     (456, 456, 1, 457), (458, 458, 1, 460), (459, 475, 2, 460),
     (478, 494, 2, 479), (497, 497, 1, 499), (498, 500, 2, 499),
     (502, 502, 1, 405), (503, 503, 1, 447), (504, 542, 2, 505),
     (544, 544, 1, 414), (546, 562, 2, 547), (570, 570, 1, 11365),
     (571, 571, 1, 572), (573, 573, 1, 410), (574, 574, 1, 11366),
     (577, 577, 1, 578), (579, 579, 1, 384), (580, 580, 1, 649),
     (581, 581, 1, 652), (582, 590, 2, 583), (880, 882, 2, 881),
     (886, 886, 1, 887), (895, 895, 1, 1011), (902, 902, 1, 940),
     (904, 906, 1, 941), (908, 908, 1, 972), (910, 911, 1, 973),
     (913, 929, 1, 945), (931, 939, 1, 963), (975, 975, 1, 983),
     (984, 1006, 2, 985), (1012, 1012, 1, 952), (1015, 1015, 1, 1016),
     (1017, 1017, 1, 1010), (1018, 1018, 1, 1019), (1021, 1023, 1, 891),
     (1024, 1039, 1, 1104), (1040, 1071, 1, 1072), (1120, 1152, 2, 1121),
     (1162, 1214, 2, 1163), (1216, 1216, 1, 1231), (1217, 1229, 2, 1218),
     (1232, 1326, 2, 1233), (1329, 1366, 1, 1377), (4256, 4293, 1, 11520),
     (4295, 4295, 1, 11559), (4301, 4301, 1, 11565), (5024, 5103, 1, 43888),
     (5104, 5109, 1, 5112), (7312, 7354, 1, 4304), (7357, 7359, 1, 4349),
     (7680, 7828, 2, 7681), (7838, 7838, 1, 223), (7840, 7934, 2, 7841),
     (7944, 7951, 1, 7936), (7960, 7965, 1, 7952), (7976, 7983, 1, 7968),
     (7992, 7999, 1, 7984), (8008, 8013, 1, 8000), (8025, 8031, 2, 8017),
     (8040, 8047, 1, 8032), (8072, 8079, 1, 8064), (8088, 8095, 1, 8080),
     (8104, 8111, 1, 8096), (8120, 8121, 1, 8112), (8122, 8123, 1, 8048),
     (8124, 8124, 1, 8115), (8136, 8139, 1, 8050), (8140, 8140, 1, 8131),
     (8152, 8153, 1, 8144), (8154, 8155, 1, 8054), (8168, 8169, 1, 8160),
     (8170, 8171, 1, 8058), (8172, 8172, 1, 8165), (8184, 8185, 1, 8056),
     (8186, 8187, 1, 8060), (8188, 8188, 1, 8179), (8486, 8486, 1, 969),
     (8490, 8490, 1, 107), (8491, 8491, 1, 229), (8498, 8498, 1, 8526),
     (8544, 8559, 1, 8560), (8579, 8579, 1, 8580), (9398, 9423, 1, 9424),
     (11264, 11311, 1, 11312), (11360, 11360, 1, 11361), (11362, 11362, 1, 619),
     (11363, 11363, 1, 7549), (11364, 11364, 1, 637), (11367, 11371, 2, 11368),
     (11373, 11373, 1, 593), (11374, 11374, 1, 625), (11375, 11375, 1, 592),
     (11376, 11376, 1, 594), (11378, 11378, 1, 11379), (11381, 11381, 1, 11382),
     (11390, 11391, 1, 575), (11392, 11490, 2, 11393), (11499, 11501, 2, 11500),
     (11506, 11506, 1, 11507), (42560, 42604, 2, 42561), (42624, 42650, 2, 42625),
     (42786, 42798, 2, 42787), (42802, 42862, 2, 42803), (42873, 42875, 2, 42874),
     (42877, 42877, 1, 7545), (42878, 42886, 2, 42879), (42891, 42891, 1, 42892),
     (42893, 42893, 1, 613), (42896, 42898, 2, 42897), (42902, 42920, 2, 42903),
     (42922, 42922, 1, 614), (42923, 42923, 1, 604), (42924, 42924, 1, 609),
     (42925, 42925, 1, 620), (42926, 42926, 1, 618), (42928, 42928, 1, 670),
     (42929, 42929, 1, 647), (42930, 42930, 1, 669), (42931, 42931, 1, 43859),
     (42932, 42946, 2, 42933), (42948, 42948, 1, 42900), (42949, 42949, 1, 642),
     (42950, 42950, 1, 7566), (42951, 42953, 2, 42952), (42960, 42960, 1, 42961),
     (42966, 42968, 2, 42967), (42997, 42997, 1, 42998), (65313, 65338, 1, 65345),
     (66560, 66599, 1, 66600), (66736, 66771, 1, 66776), (66928, 66938, 1, 66967),
     (66940, 66954, 1, 66979), (66956, 66962, 1, 66995), (66964, 66965, 1, 67003),
     (68736, 68786, 1, 68800), (71840, 71871, 1, 71872), (93760, 93791, 1, 93792),
     (125184, 125217, 1, 125218)
    ]"

definition lower_cp :: "int \<Rightarrow> int list" where
  "lower_cp c =
     (if c = 304 then [105, 775]
      else case find (\<lambda>(a, b, s, a'). in_row c (a, b, s)) lowercase_rows of
             Some (a, b, s, a') \<Rightarrow> [a' + (c - a)]
           | None \<Rightarrow> [c])"

text \<open>The code points of a string of 8-bit characters.\<close>

definition code_points :: "string \<Rightarrow> int list" where
  "code_points s = map of_char s"

text \<open>The loop of \<open>_pep8_key_name\<close> over \<open>key_name[1:]\<close>, on code points.\<close>

fun pep8_loop_cp :: "int list \<Rightarrow> int list \<Rightarrow> int list" where
  "pep8_loop_cp temp [] = temp"
| "pep8_loop_cp temp (e # es) =
     (if isupper_cp e then pep8_loop_cp (temp @ code_points ''_'' @ lower_cp e) es
      else pep8_loop_cp (temp @ [e]) es)"

text \<open>The loop over \<open>pre_formatted_keys.items()\<close>, on code points.\<close>

fun pep8_substitute_cp :: "(int list \<times> int list) list \<Rightarrow> int list \<Rightarrow> int list" where
  "pep8_substitute_cp [] key_name = key_name"
| "pep8_substitute_cp ((key, val) # rest) key_name =
     (if str_contains key key_name then pep8_substitute_cp rest (replace key val key_name)
      else pep8_substitute_cp rest key_name)"

text \<open>
  \<open>_pep8_key_name\<close> on code points. \<open>key_name[:1].lower()\<close> is the lower case of one character
  or the empty string.
\<close>

definition pep8_key_name_with_cp ::
  "int list list \<Rightarrow> (int list \<times> int list) list \<Rightarrow> int list \<Rightarrow> int list" where
  "pep8_key_name_with_cp ignored_keys pre_formatted_keys key_name =
     (if key_name \<in> set ignored_keys then key_name
      else let key_name' = pep8_substitute_cp pre_formatted_keys key_name
           in pep8_loop_cp (concat (map lower_cp (take 1 key_name'))) (drop 1 key_name'))"

definition pep8_key_name_cp :: "int list \<Rightarrow> int list" where
  "pep8_key_name_cp key_name =
     pep8_key_name_with_cp (map code_points IGNORED_KEYS)
       (map (\<lambda>(key, val). (code_points key, code_points val)) PRE_FORMATTED_KEYS) key_name"

text \<open>
  Two rows are apart when their bounds do not overlap, or when each holds code points of
  one parity only and the parities differ; then no code point is in both. The image of a row
  of \<open>lowercase_rows\<close> is the row of the code points it produces.
\<close>

fun rows_apart :: "row \<Rightarrow> row \<Rightarrow> bool" where
  "rows_apart (a, b, s) (a', b', s') =
     (if b < a' then True
      else if b' < a then True
      else (even s \<or> a = b) \<and> (even s' \<or> a' = b') \<and> a mod 2 \<noteq> a' mod 2)"

fun image_row :: "int \<times> int \<times> int \<times> int \<Rightarrow> row" where
  "image_row (a, b, s, a') = (a', a' + (b - a), s)"

fun domain_row :: "int \<times> int \<times> int \<times> int \<Rightarrow> row" where
  "domain_row (a, b, s, a') = (a, b, s)"

text \<open>
  For the proofs, the rows of \<open>uppercase_rows\<close> and the rows that \<open>lowercase_rows\<close> changes,
  each once more as a search tree, in the order of the table; a row is found in it, or
  found missing, in a few steps.
\<close>

datatype row_tree = Tip | Branch row_tree row row_tree

fun rows_of :: "row_tree \<Rightarrow> row list" where
  "rows_of Tip = []"
| "rows_of (Branch t1 r t2) = rows_of t1 @ r # rows_of t2"

definition uppercase_tree :: "row_tree" where
  "uppercase_tree =
     Branch (Branch (Branch (Branch (Branch (Branch (Branch (Branch Tip (65, 90, 1) Tip) (192, 214, 1)
     Tip) (216, 222, 1) (Branch (Branch Tip (256, 310, 2) Tip) (313, 327, 2) Tip)) (330, 376,
     2) (Branch (Branch (Branch Tip (377, 381, 2) Tip) (385, 386, 1) Tip) (388, 390, 2) (Branch
     Tip (391, 393, 2) Tip))) (394, 395, 1) (Branch (Branch (Branch (Branch Tip (398, 401, 1)
     Tip) (403, 404, 1) Tip) (406, 408, 1) (Branch Tip (412, 413, 1) Tip)) (415, 416, 1)
     (Branch (Branch (Branch Tip (418, 422, 2) Tip) (423, 425, 2) Tip) (428, 430, 2) (Branch Tip
     (431, 433, 2) Tip)))) (434, 435, 1) (Branch (Branch (Branch (Branch (Branch Tip (437, 439, 2)
     Tip) (440, 440, 1) Tip) (444, 444, 1) (Branch (Branch Tip (452, 452, 1) Tip) (455, 455,
     1) Tip)) (458, 458, 1) (Branch (Branch (Branch Tip (461, 475, 2) Tip) (478, 494, 2) Tip)
     (497, 497, 1) (Branch Tip (500, 502, 2) Tip))) (503, 504, 1) (Branch (Branch (Branch (Branch
     Tip (506, 562, 2) Tip) (570, 571, 1) Tip) (573, 574, 1) (Branch Tip (577, 579, 2)
     Tip)) (580, 582, 1) (Branch (Branch (Branch Tip (584, 590, 2) Tip) (880, 882, 2) Tip)
     (886, 886, 1) (Branch Tip (895, 895, 1) Tip))))) (902, 904, 2) (Branch (Branch (Branch (Branch
     (Branch (Branch Tip (905, 906, 1) Tip) (908, 910, 2) Tip) (911, 913, 2) (Branch (Branch Tip
     (914, 929, 1) Tip) (931, 939, 1) Tip)) (975, 975, 1) (Branch (Branch (Branch Tip (978, 980,
     1) Tip) (984, 1006, 2) Tip) (1012, 1012, 1) (Branch Tip (1015, 1017, 2) Tip))) (1018,
     1018, 1) (Branch (Branch (Branch (Branch Tip (1021, 1071, 1) Tip) (1120, 1152, 2) Tip) (1162,
     1216, 2) (Branch Tip (1217, 1229, 2) Tip)) (1232, 1326, 2) (Branch (Branch (Branch Tip (1329,
     1366, 1) Tip) (4256, 4293, 1) Tip) (4295, 4295, 1) (Branch Tip (4301, 4301, 1) Tip))))
     (5024, 5109, 1) (Branch (Branch (Branch (Branch (Branch Tip (7312, 7354, 1) Tip) (7357, 7359, 1)
     Tip) (7680, 7828, 2) (Branch (Branch Tip (7838, 7934, 2) Tip) (7944, 7951, 1) Tip))
     (7960, 7965, 1) (Branch (Branch (Branch Tip (7976, 7983, 1) Tip) (7992, 7999, 1) Tip)
     (8008, 8013, 1) (Branch Tip (8025, 8031, 2) Tip))) (8040, 8047, 1) (Branch (Branch (Branch
     (Branch Tip (8120, 8123, 1) Tip) (8136, 8139, 1) Tip) (8152, 8155, 1) (Branch Tip (8168,
     8172, 1) Tip)) (8184, 8187, 1) (Branch (Branch (Branch Tip (8450, 8450, 1) Tip) (8455,
     8455, 1) Tip) (8459, 8461, 1) (Branch Tip (8464, 8466, 1) Tip)))))) (8469, 8469, 1)
     (Branch (Branch (Branch (Branch (Branch (Branch (Branch Tip (8473, 8477, 1) Tip) (8484, 8490, 2)
     Tip) (8491, 8493, 1) (Branch (Branch Tip (8496, 8499, 1) Tip) (8510, 8511, 1) Tip))
     (8517, 8517, 1) (Branch (Branch (Branch Tip (8544, 8559, 1) Tip) (8579, 8579, 1) Tip)
     (9398, 9423, 1) (Branch Tip (11264, 11311, 1) Tip))) (11360, 11362, 2) (Branch (Branch (Branch
     (Branch Tip (11363, 11364, 1) Tip) (11367, 11373, 2) Tip) (11374, 11376, 1) (Branch Tip
     (11378, 11378, 1) Tip)) (11381, 11381, 1) (Branch (Branch (Branch Tip (11390, 11392, 1)
     Tip) (11394, 11490, 2) Tip) (11499, 11501, 2) (Branch Tip (11506, 11506, 1) Tip))))
     (42560, 42604, 2) (Branch (Branch (Branch (Branch (Branch Tip (42624, 42650, 2) Tip) (42786,
     42798, 2) Tip) (42802, 42862, 2) (Branch (Branch Tip (42873, 42877, 2) Tip) (42878,
     42886, 2) Tip)) (42891, 42893, 2) (Branch (Branch (Branch Tip (42896, 42898, 2) Tip)
     (42902, 42922, 2) Tip) (42923, 42926, 1) (Branch Tip (42928, 42932, 1) Tip))) (42934,
     42948, 2) (Branch (Branch (Branch (Branch Tip (42949, 42951, 1) Tip) (42953, 42953, 1) Tip)
     (42960, 42960, 1) (Branch Tip (42966, 42968, 2) Tip)) (42997, 42997, 1) (Branch (Branch
     (Branch Tip (65313, 65338, 1) Tip) (66560, 66599, 1) Tip) (66736, 66771, 1) (Branch Tip
     (66928, 66938, 1) Tip))))) (66940, 66954, 1) (Branch (Branch (Branch (Branch (Branch (Branch Tip
     (66956, 66962, 1) Tip) (66964, 66965, 1) Tip) (68736, 68786, 1) (Branch (Branch Tip
     (71840, 71871, 1) Tip) (93760, 93791, 1) Tip)) (119808, 119833, 1) (Branch (Branch (Branch
     Tip (119860, 119885, 1) Tip) (119912, 119937, 1) Tip) (119964, 119966, 2) (Branch Tip
     (119967, 119967, 1) Tip))) (119970, 119970, 1) (Branch (Branch (Branch (Branch Tip (119973,
     119974, 1) Tip) (119977, 119980, 1) Tip) (119982, 119989, 1) (Branch Tip (120016,
     120041, 1) Tip)) (120068, 120069, 1) (Branch (Branch (Branch Tip (120071, 120074, 1) Tip)
     (120077, 120084, 1) Tip) (120086, 120092, 1) (Branch Tip (120120, 120121, 1) Tip))))
     (120123, 120126, 1) (Branch (Branch (Branch (Branch (Branch Tip (120128, 120132, 1) Tip)
     (120134, 120134, 1) Tip) (120138, 120144, 1) (Branch Tip (120172, 120197, 1) Tip))
     (120224, 120249, 1) (Branch (Branch (Branch Tip (120276, 120301, 1) Tip) (120328, 120353, 1)
     Tip) (120380, 120405, 1) (Branch Tip (120432, 120457, 1) Tip))) (120488, 120512, 1)
     (Branch (Branch (Branch (Branch Tip (120546, 120570, 1) Tip) (120604, 120628, 1) Tip)
     (120662, 120686, 1) (Branch Tip (120720, 120744, 1) Tip)) (120778, 120778, 1) (Branch
     (Branch (Branch Tip (125184, 125217, 1) Tip) (127280, 127305, 1) Tip) (127312, 127337, 1)
     (Branch Tip (127344, 127369, 1) Tip))))))"

definition lowercase_tree :: "row_tree" where
  "lowercase_tree =
     Branch (Branch (Branch (Branch (Branch (Branch (Branch (Branch Tip (65, 90, 1) Tip) (192, 214, 1)
     Tip) (216, 222, 1) (Branch (Branch Tip (256, 302, 2) Tip) (306, 310, 2) Tip)) (313, 327,
     2) (Branch (Branch (Branch Tip (330, 374, 2) Tip) (376, 376, 1) Tip) (377, 381, 2) (Branch
     (Branch Tip (385, 385, 1) Tip) (386, 388, 2) Tip))) (390, 390, 1) (Branch (Branch (Branch
     (Branch Tip (391, 391, 1) Tip) (393, 394, 1) Tip) (395, 395, 1) (Branch (Branch Tip (398,
     398, 1) Tip) (399, 399, 1) Tip)) (400, 400, 1) (Branch (Branch (Branch Tip (401, 401, 1)
     Tip) (403, 403, 1) Tip) (404, 404, 1) (Branch Tip (406, 406, 1) Tip)))) (407, 407, 1)
     (Branch (Branch (Branch (Branch (Branch Tip (408, 408, 1) Tip) (412, 412, 1) Tip) (413, 413, 1)
     (Branch (Branch Tip (415, 415, 1) Tip) (416, 420, 2) Tip)) (422, 422, 1) (Branch (Branch
     (Branch Tip (423, 423, 1) Tip) (425, 425, 1) Tip) (428, 428, 1) (Branch (Branch Tip (430,
     430, 1) Tip) (431, 431, 1) Tip))) (433, 434, 1) (Branch (Branch (Branch (Branch Tip (435,
     437, 2) Tip) (439, 439, 1) Tip) (440, 440, 1) (Branch (Branch Tip (444, 444, 1) Tip)
     (452, 452, 1) Tip)) (453, 453, 1) (Branch (Branch (Branch Tip (455, 455, 1) Tip) (456, 456,
     1) Tip) (458, 458, 1) (Branch Tip (459, 475, 2) Tip))))) (478, 494, 2) (Branch (Branch
     (Branch (Branch (Branch (Branch Tip (497, 497, 1) Tip) (498, 500, 2) Tip) (502, 502, 1) (Branch
     (Branch Tip (503, 503, 1) Tip) (504, 542, 2) Tip)) (544, 544, 1) (Branch (Branch (Branch Tip
     (546, 562, 2) Tip) (570, 570, 1) Tip) (571, 571, 1) (Branch (Branch Tip (573, 573, 1)
     Tip) (574, 574, 1) Tip))) (577, 577, 1) (Branch (Branch (Branch (Branch Tip (579, 579, 1)
     Tip) (580, 580, 1) Tip) (581, 581, 1) (Branch (Branch Tip (582, 590, 2) Tip) (880, 882,
     2) Tip)) (886, 886, 1) (Branch (Branch (Branch Tip (895, 895, 1) Tip) (902, 902, 1) Tip)
     (904, 906, 1) (Branch Tip (908, 908, 1) Tip)))) (910, 911, 1) (Branch (Branch (Branch (Branch
     (Branch Tip (913, 929, 1) Tip) (931, 939, 1) Tip) (975, 975, 1) (Branch (Branch Tip (984,
     1006, 2) Tip) (1012, 1012, 1) Tip)) (1015, 1015, 1) (Branch (Branch (Branch Tip (1017,
     1017, 1) Tip) (1018, 1018, 1) Tip) (1021, 1023, 1) (Branch Tip (1024, 1039, 1) Tip)))
     (1040, 1071, 1) (Branch (Branch (Branch (Branch Tip (1120, 1152, 2) Tip) (1162, 1214, 2) Tip)
     (1216, 1216, 1) (Branch (Branch Tip (1217, 1229, 2) Tip) (1232, 1326, 2) Tip)) (1329,
     1366, 1) (Branch (Branch (Branch Tip (4256, 4293, 1) Tip) (4295, 4295, 1) Tip) (4301, 4301,
     1) (Branch Tip (5024, 5103, 1) Tip)))))) (5104, 5109, 1) (Branch (Branch (Branch (Branch (Branch
     (Branch (Branch Tip (7312, 7354, 1) Tip) (7357, 7359, 1) Tip) (7680, 7828, 2) (Branch (Branch
     Tip (7838, 7838, 1) Tip) (7840, 7934, 2) Tip)) (7944, 7951, 1) (Branch (Branch (Branch Tip
     (7960, 7965, 1) Tip) (7976, 7983, 1) Tip) (7992, 7999, 1) (Branch (Branch Tip (8008,
     8013, 1) Tip) (8025, 8031, 2) Tip))) (8040, 8047, 1) (Branch (Branch (Branch (Branch Tip
     (8072, 8079, 1) Tip) (8088, 8095, 1) Tip) (8104, 8111, 1) (Branch (Branch Tip (8120,
     8121, 1) Tip) (8122, 8123, 1) Tip)) (8124, 8124, 1) (Branch (Branch (Branch Tip (8136,
     8139, 1) Tip) (8140, 8140, 1) Tip) (8152, 8153, 1) (Branch Tip (8154, 8155, 1) Tip))))
     (8168, 8169, 1) (Branch (Branch (Branch (Branch (Branch Tip (8170, 8171, 1) Tip) (8172, 8172, 1)
     Tip) (8184, 8185, 1) (Branch (Branch Tip (8186, 8187, 1) Tip) (8188, 8188, 1) Tip))
     (8486, 8486, 1) (Branch (Branch (Branch Tip (8490, 8490, 1) Tip) (8491, 8491, 1) Tip)
     (8498, 8498, 1) (Branch (Branch Tip (8544, 8559, 1) Tip) (8579, 8579, 1) Tip))) (9398,
     9423, 1) (Branch (Branch (Branch (Branch Tip (11264, 11311, 1) Tip) (11360, 11360, 1) Tip)
     (11362, 11362, 1) (Branch (Branch Tip (11363, 11363, 1) Tip) (11364, 11364, 1) Tip))
     (11367, 11371, 2) (Branch (Branch (Branch Tip (11373, 11373, 1) Tip) (11374, 11374, 1) Tip)
     (11375, 11375, 1) (Branch Tip (11376, 11376, 1) Tip))))) (11378, 11378, 1) (Branch (Branch
     (Branch (Branch (Branch (Branch Tip (11381, 11381, 1) Tip) (11390, 11391, 1) Tip) (11392,
     11490, 2) (Branch (Branch Tip (11499, 11501, 2) Tip) (11506, 11506, 1) Tip)) (42560,
     42604, 2) (Branch (Branch (Branch Tip (42624, 42650, 2) Tip) (42786, 42798, 2) Tip) (42802,
     42862, 2) (Branch (Branch Tip (42873, 42875, 2) Tip) (42877, 42877, 1) Tip))) (42878,
     42886, 2) (Branch (Branch (Branch (Branch Tip (42891, 42891, 1) Tip) (42893, 42893, 1) Tip)
     (42896, 42898, 2) (Branch (Branch Tip (42902, 42920, 2) Tip) (42922, 42922, 1) Tip))
     (42923, 42923, 1) (Branch (Branch (Branch Tip (42924, 42924, 1) Tip) (42925, 42925, 1) Tip)
     (42926, 42926, 1) (Branch Tip (42928, 42928, 1) Tip)))) (42929, 42929, 1) (Branch (Branch
     (Branch (Branch (Branch Tip (42930, 42930, 1) Tip) (42931, 42931, 1) Tip) (42932, 42946, 2)
     (Branch (Branch Tip (42948, 42948, 1) Tip) (42949, 42949, 1) Tip)) (42950, 42950, 1)
     (Branch (Branch (Branch Tip (42951, 42953, 2) Tip) (42960, 42960, 1) Tip) (42966, 42968, 2)
     (Branch Tip (42997, 42997, 1) Tip))) (65313, 65338, 1) (Branch (Branch (Branch (Branch Tip
     (66560, 66599, 1) Tip) (66736, 66771, 1) Tip) (66928, 66938, 1) (Branch (Branch Tip
     (66940, 66954, 1) Tip) (66956, 66962, 1) Tip)) (66964, 66965, 1) (Branch (Branch (Branch
     Tip (68736, 68786, 1) Tip) (71840, 71871, 1) Tip) (93760, 93791, 1) (Branch Tip
     (125184, 125217, 1) Tip))))))"

text \<open>All code points of all rows of the tree lie between \<open>l\<close> and \<open>h\<close>, in order.\<close>

fun rows_between :: "int \<Rightarrow> row_tree \<Rightarrow> int \<Rightarrow> bool" where
  "rows_between l Tip h = True"
| "rows_between l (Branch t1 (a, b, s) t2) h =
     (l < a \<and> a \<le> b \<and> b < h \<and> rows_between l t1 a \<and> rows_between b t2 h)"

text \<open>The row is apart from every row of the tree.\<close>

fun tree_apart :: "row \<Rightarrow> row_tree \<Rightarrow> bool" where
  "tree_apart r Tip = True"
| "tree_apart (a, b, s) (Branch t1 (a', b', s') t2) =
     (if b < a' then tree_apart (a, b, s) t1
      else if b' < a then tree_apart (a, b, s) t2
      else rows_apart (a, b, s) (a', b', s')
           \<and> tree_apart (a, b, s) t1 \<and> tree_apart (a, b, s) t2)"

section \<open>Decoded response bodies\<close>

text \<open>
  A decoded JSON body. A Python \<open>dict\<close> keeps its keys in insertion order, so an object is an
  association list (with distinct keys, as a \<open>dict\<close> has). A JSON float is kept as the
  rational number it denotes; the non-finite floats are not modelled.
\<close>

datatype json =
    JNull
  | JBool bool
  | JInt int
  | JFloat rat
  | JStr string
  | JList "json list"
  | JDict "(string \<times> json) list"

text \<open>\<open>isinstance(value, int)\<close>: \<open>bool\<close> is a subclass of \<open>int\<close> in Python.\<close>

fun as_int :: "json \<Rightarrow> int option" where
  "as_int (JInt i) = Some i"
| "as_int (JBool b) = Some (if b then 1 else 0)"
| "as_int _ = None"

definition isinstance_int :: "json \<Rightarrow> bool" where
  "isinstance_int v = (as_int v \<noteq> None)"

fun isinstance_list :: "json \<Rightarrow> bool" where
  "isinstance_list (JList xs) = True"
| "isinstance_list _ = False"

fun isinstance_dict :: "json \<Rightarrow> bool" where
  "isinstance_dict (JDict kvs) = True"
| "isinstance_dict _ = False"

text \<open>\<open>bool(value)\<close>, used by the builders on values that are instances of \<open>int\<close> only.\<close>

definition py_bool :: "json \<Rightarrow> json" where
  "py_bool v = (case as_int v of Some i \<Rightarrow> JBool (i \<noteq> 0) | None \<Rightarrow> v)"

fun as_number :: "json \<Rightarrow> rat option" where
  "as_number (JBool b) = Some (if b then 1 else 0)"
| "as_number (JInt i) = Some (of_int i)"
| "as_number (JFloat r) = Some r"
| "as_number _ = None"

text \<open>
  Python's \<open>==\<close> on decoded values: numbers (booleans included) are equal when their values
  are, lists when they are equal element by element, dictionaries when they have the same
  keys with equal values, whatever the order of the keys.
\<close>

fun json_eq :: "json \<Rightarrow> json \<Rightarrow> bool"
  and json_eq_list :: "json list \<Rightarrow> json list \<Rightarrow> bool"
  and json_eq_items :: "(string \<times> json) list \<Rightarrow> (string \<times> json) list \<Rightarrow> bool" where
  "json_eq JNull b = (b = JNull)"
| "json_eq (JBool x) b = (as_number b = Some (if x then 1 else 0))"
| "json_eq (JInt x) b = (as_number b = Some (of_int x))"
| "json_eq (JFloat x) b = (as_number b = Some x)"
| "json_eq (JStr x) b = (b = JStr x)"
| "json_eq (JList xs) b = (case b of JList ys \<Rightarrow> json_eq_list xs ys | _ \<Rightarrow> False)"
| "json_eq (JDict xs) b =
     (case b of JDict ys \<Rightarrow> length xs = length ys \<and> json_eq_items xs ys | _ \<Rightarrow> False)"
| "json_eq_list [] ys = (ys = [])"
| "json_eq_list (x # xs) ys =
     (case ys of [] \<Rightarrow> False | y # ys' \<Rightarrow> json_eq x y \<and> json_eq_list xs ys')"
| "json_eq_items [] ys = True"
| "json_eq_items ((k, v) # xs) ys =
     ((case map_of ys k of None \<Rightarrow> False | Some v' \<Rightarrow> json_eq v v') \<and> json_eq_items xs ys)"

section \<open>Time\<close>

text \<open>
  A \<open>datetime\<close> is the number of microseconds since the epoch and a \<open>timedelta\<close> a number of
  microseconds, both integers: the resolution of the two Python types. Python computes
  \<open>1000 / n\<close>, \<open>value / 1000\<close> and the sleep time in floating point; the model computes them
  exactly, in the rationals, and rounds to microseconds as \<open>timedelta\<close> and
  \<open>datetime.fromtimestamp\<close> do (to the nearest, ties to even). The local time zone is taken
  at offset 0.
\<close>

definition round_half_even :: "rat \<Rightarrow> int" where
  "round_half_even x =
     (let f = \<lfloor>x\<rfloor>; d = x - of_int f
      in if d < 1 / 2 then f else if 1 / 2 < d then f + 1 else if even f then f else f + 1)"

text \<open>\<open>timedelta(milliseconds=ms)\<close>, in microseconds.\<close>

definition timedelta_milliseconds :: "rat \<Rightarrow> int" where
  "timedelta_milliseconds ms = round_half_even (ms * 1000)"

text \<open>
  \<open>datetime.fromtimestamp(t)\<close> for \<open>t\<close> in seconds: \<open>None\<close> when Python raises, which it does
  when the result is not in the years 1 to 9999.
\<close>

definition fromtimestamp :: "rat \<Rightarrow> int option" where
  "fromtimestamp t =
     (let us = round_half_even (t * 1000000)
      in if - 62135596800000000 \<le> us \<and> us \<le> 253402300799999999 then Some us else None)"

section \<open>Errors\<close>

text \<open>The three messages \<open>_request\<close> has for a \<open>ConnectionError\<close>.\<close>

datatype message = Generic_failure | Invalid_parameters | Invalid_world_dc_or_item

text \<open>
  The exceptions of the modelled code. A \<open>ConnectionError\<close> carries its message, the status
  and the URL. \<open>Unmodelled\<close> marks the few places where the behaviour of Python is left out
  of the model; each is named where it occurs.
\<close>

datatype error =
    AttributeError string
  | TypeError
  | ZeroDivisionError
  | FileNotFoundError
  | ConnectionError message int string
  | Unmodelled

section \<open>Entries\<close>

text \<open>
  What an attribute of a record can hold: a decoded value (\<open>None\<close> is \<open>J JNull\<close>), a
  \<open>datetime\<close>, or a reference to a client, named by the identity of the client object.
\<close>

datatype val = J json | Datetime int | Client nat

fun py_eq :: "val \<Rightarrow> val \<Rightarrow> bool" where
  "py_eq (J a) (J b) = json_eq a b"
| "py_eq (Datetime a) (Datetime b) = (a = b)"
| "py_eq (Client a) (Client b) = (a = b)"
| "py_eq _ _ = False"

fun isinstance_datetime :: "val \<Rightarrow> bool" where
  "isinstance_datetime (Datetime t) = True"
| "isinstance_datetime _ = False"

text \<open>\<open>a < b\<close> on two values that are both \<open>datetime\<close>s (the code compares no others).\<close>

fun datetime_lt :: "val \<Rightarrow> val \<Rightarrow> bool" where
  "datetime_lt (Datetime a) (Datetime b) = (a < b)"
| "datetime_lt _ _ = False"

text \<open>
  An object is its class and its instance dictionary, in insertion order. The classes
  \<open>CurrentDataEntries\<close> and \<open>HistoryDataEntries\<close> derive from \<open>Generic\<close>, which leaves
  attribute access as Python defines it.
\<close>

datatype entry_cls = CurrentDataEntries | HistoryDataEntries

record entry =
  entry_class :: entry_cls
  entry_dict :: "(string \<times> val) list"

text \<open>
  Names that begin with two underscores are the special attributes of a Python object
  (\<open>__class__\<close>, \<open>__dict__\<close> and the like), read and written by rules of their own. The model
  leaves them out: reading or writing one is \<open>Unmodelled\<close>.
\<close>

definition special_name :: "string \<Rightarrow> bool" where
  "special_name name = (take 2 name = ''__'')"

text \<open>
  \<open>Generic.__init__\<close>: the instance dictionary after it, given the value of the global
  \<open>API_CLASS\<close> that \<open>_get_global_api()\<close> returns.
\<close>

definition Generic_init :: "nat option \<Rightarrow> json \<Rightarrow> (string \<times> val) list" where
  "Generic_init API_CLASS data =
     [(''_raw'', J data),
      (''_universalis'', case API_CLASS of None \<Rightarrow> J JNull | Some c \<Rightarrow> Client c)]"

definition entry_store :: "string \<Rightarrow> val \<Rightarrow> entry \<Rightarrow> entry" where
  "entry_store name v self = self\<lparr>entry_dict := AList.update name v (entry_dict self)\<rparr>"

text \<open>The setter of the property \<open>CurrentDataEntries.last_review_time\<close>.\<close>

definition set_last_review_time :: "json \<Rightarrow> entry \<Rightarrow> entry" where
  "set_last_review_time value self =
     (case as_int value of
        None \<Rightarrow> self
      | Some i \<Rightarrow>
          (case fromtimestamp (of_int i) of
             Some t \<Rightarrow> entry_store ''_last_review_time'' (Datetime t) self
           | None \<Rightarrow> entry_store ''_last_review_time'' (J value) self))"

text \<open>The setter of the property \<open>HistoryDataEntries.timestamp\<close>.\<close>

definition set_timestamp :: "json \<Rightarrow> entry \<Rightarrow> entry" where
  "set_timestamp value self =
     (case as_int value of
        None \<Rightarrow> self
      | Some i \<Rightarrow>
          (case fromtimestamp (of_int i) of
             Some t \<Rightarrow> entry_store ''_timestamp'' (Datetime t) self
           | None \<Rightarrow> entry_store ''_timestamp'' (J value) self))"

text \<open>\<open>setattr(self, name, value)\<close> on an entry: a property of the class goes to its setter.\<close>

definition entry_setattr :: "entry \<Rightarrow> string \<Rightarrow> json \<Rightarrow> error + entry" where
  "entry_setattr self name value =
     (if special_name name then Inl Unmodelled
      else if entry_class self = CurrentDataEntries \<and> name = ''last_review_time''
        then Inr (set_last_review_time value self)
      else if entry_class self = HistoryDataEntries \<and> name = ''timestamp''
        then Inr (set_timestamp value self)
      else Inr (entry_store name (J value) self))"

text \<open>
  Reading a name that is no property: the instance dictionary, then the class. The one
  member of the class that is neither a property nor special is the logger \<open>_logger\<close>, which
  the model leaves out. The annotations in the class bodies (\<open>world_name: Optional[str]\<close>
  and the others) create no attribute.
\<close>

definition entry_lookup :: "entry \<Rightarrow> string \<Rightarrow> error + val" where
  "entry_lookup self name =
     (case map_of (entry_dict self) name of
        Some v \<Rightarrow> Inr v
      | None \<Rightarrow> if name = ''_logger'' then Inl Unmodelled else Inl (AttributeError name))"

text \<open>\<open>getattr(self, name)\<close> on an entry; the two properties return their private field.\<close>

definition entry_getattr :: "entry \<Rightarrow> string \<Rightarrow> error + val" where
  "entry_getattr self name =
     (if special_name name then Inl Unmodelled
      else if entry_class self = CurrentDataEntries \<and> name = ''last_review_time''
        then entry_lookup self ''_last_review_time''
      else if entry_class self = HistoryDataEntries \<and> name = ''timestamp''
        then entry_lookup self ''_timestamp''
      else entry_lookup self name)"

text \<open>The loop of \<open>CurrentDataEntries.__init__\<close> over \<open>data.items()\<close>.\<close>

fun CurrentDataEntries_items :: "(string \<times> json) list \<Rightarrow> entry \<Rightarrow> error + entry" where
  "CurrentDataEntries_items [] self = Inr self"
| "CurrentDataEntries_items ((key, value) # rest) self =
     (let key' = pep8_key_name key
      in case (if lower key' \<in> set [''on_mannequin'', ''is_crafted'', ''hq'']
                  \<and> isinstance_int value
               then entry_setattr self key' (py_bool value)
               else entry_setattr self key' value) of
           Inl e \<Rightarrow> Inl e
         | Inr self' \<Rightarrow> CurrentDataEntries_items rest self')"

text \<open>
  \<open>CurrentDataEntries(data=data)\<close>. A \<open>data\<close> that is no dictionary has no \<open>items\<close>.
\<close>

definition CurrentDataEntries_init :: "nat option \<Rightarrow> json \<Rightarrow> error + entry" where
  "CurrentDataEntries_init API_CLASS data =
     (let self = \<lparr>entry_class = CurrentDataEntries, entry_dict = Generic_init API_CLASS data\<rparr>
      in case data of
           JDict kvs \<Rightarrow> CurrentDataEntries_items kvs self
         | _ \<Rightarrow> Inl (AttributeError ''items''))"

fun HistoryDataEntries_items :: "(string \<times> json) list \<Rightarrow> entry \<Rightarrow> error + entry" where
  "HistoryDataEntries_items [] self = Inr self"
| "HistoryDataEntries_items ((key, value) # rest) self =
     (let key' = pep8_key_name key
      in case (if lower key' \<in> set [''hq'', ''on_mannequin''] \<and> isinstance_int value
               then entry_setattr self key' (py_bool value)
               else entry_setattr self key' value) of
           Inl e \<Rightarrow> Inl e
         | Inr self' \<Rightarrow> HistoryDataEntries_items rest self')"

definition HistoryDataEntries_init :: "nat option \<Rightarrow> json \<Rightarrow> error + entry" where
  "HistoryDataEntries_init API_CLASS data =
     (let self = \<lparr>entry_class = HistoryDataEntries, entry_dict = Generic_init API_CLASS data\<rparr>;
          self = entry_store ''_repr_keys''
                   (J (JList (map JStr [''hq'', ''quantity'', ''price_per_unit'', ''world_name'',
                                        ''timestamp''])))
                   self
      in case data of
           JDict kvs \<Rightarrow> HistoryDataEntries_items kvs self
         | _ \<Rightarrow> Inl (AttributeError ''items''))"

subsection \<open>Equality and order of entries\<close>

text \<open>\<open>CurrentDataEntries.__eq__\<close>; \<open>and\<close> evaluates its right side only when the left holds.\<close>

definition CurrentDataEntries_eq :: "entry \<Rightarrow> entry \<Rightarrow> error + bool" where
  "CurrentDataEntries_eq self other =
     (if entry_class other \<noteq> entry_class self then Inr False
      else case entry_getattr self ''hq'' of
             Inl e \<Rightarrow> Inl e
           | Inr a \<Rightarrow>
               (case entry_getattr other ''hq'' of
                  Inl e \<Rightarrow> Inl e
                | Inr b \<Rightarrow> Inr (py_eq a b)))"

text \<open>\<open>CurrentDataEntries.__lt__\<close>.\<close>

definition CurrentDataEntries_lt :: "entry \<Rightarrow> entry \<Rightarrow> error + bool" where
  "CurrentDataEntries_lt self other =
     (if entry_class other \<noteq> entry_class self then Inr False
      else case entry_getattr self ''hq'' of
             Inl e \<Rightarrow> Inl e
           | Inr a \<Rightarrow>
               (case entry_getattr other ''hq'' of
                  Inl e \<Rightarrow> Inl e
                | Inr b \<Rightarrow>
                    if \<not> py_eq a b then Inr False
                    else (case entry_getattr self ''last_review_time'' of
                            Inl e \<Rightarrow> Inl e
                          | Inr s \<Rightarrow>
                              if \<not> isinstance_datetime s then Inr False
                              else (case entry_getattr other ''last_review_time'' of
                                      Inl e \<Rightarrow> Inl e
                                    | Inr t \<Rightarrow>
                                        if \<not> isinstance_datetime t then Inr False
                                        else Inr (datetime_lt s t)))))"

text \<open>\<open>HistoryDataEntries.__eq__\<close>.\<close>

definition HistoryDataEntries_eq :: "entry \<Rightarrow> entry \<Rightarrow> error + bool" where
  "HistoryDataEntries_eq self other =
     (if entry_class other \<noteq> entry_class self then Inr False
      else case entry_getattr self ''hq'' of
             Inl e \<Rightarrow> Inl e
           | Inr a \<Rightarrow>
               (case entry_getattr other ''hq'' of
                  Inl e \<Rightarrow> Inl e
                | Inr b \<Rightarrow>
                    if \<not> py_eq a b then Inr False
                    else (case entry_getattr self ''price_per_unit'' of
                            Inl e \<Rightarrow> Inl e
                          | Inr p \<Rightarrow>
                              (case entry_getattr other ''price_per_unit'' of
                                 Inl e \<Rightarrow> Inl e
                               | Inr q \<Rightarrow> Inr (py_eq p q)))))"

text \<open>\<open>HistoryDataEntries.__lt__\<close>.\<close>

definition HistoryDataEntries_lt :: "entry \<Rightarrow> entry \<Rightarrow> error + bool" where
  "HistoryDataEntries_lt self other =
     (if entry_class other \<noteq> entry_class self then Inr False
      else case entry_getattr self ''hq'' of
             Inl e \<Rightarrow> Inl e
           | Inr a \<Rightarrow>
               (case entry_getattr other ''hq'' of
                  Inl e \<Rightarrow> Inl e
                | Inr b \<Rightarrow>
                    if \<not> py_eq a b then Inr False
                    else (case entry_getattr self ''timestamp'' of
                            Inl e \<Rightarrow> Inl e
                          | Inr s \<Rightarrow>
                              if \<not> isinstance_datetime s then Inr False
                              else (case entry_getattr other ''timestamp'' of
                                      Inl e \<Rightarrow> Inl e
                                    | Inr t \<Rightarrow>
                                        if \<not> isinstance_datetime t then Inr False
                                        else Inr (datetime_lt s t)))))"

text \<open>\<open>self < other\<close> on entries: the \<open>__lt__\<close> of the class of \<open>self\<close>.\<close>

definition entry_lt :: "entry \<Rightarrow> entry \<Rightarrow> error + bool" where
  "entry_lt self other =
     (case entry_class self of
        CurrentDataEntries \<Rightarrow> CurrentDataEntries_lt self other
      | HistoryDataEntries \<Rightarrow> HistoryDataEntries_lt self other)"

section \<open>Sorting as \<open>sorted\<close> does\<close>

text \<open>
  \<open>sorted(xs)\<close> copies the list and calls \<open>list.sort\<close>, which asks only \<open>a < b\<close> of the
  elements and passes on an exception of the comparison. On a list of 2 to 63 elements
  CPython (up to 3.12) finds the run at the start of the list, non-descending or strictly
  descending (\<open>count_run\<close>), reverses it when it descends, and puts each element after it
  into place by binary insertion (\<open>binarysort\<close>). Lists of 64 elements and more are merged
  from several such runs; the model leaves them out.
\<close>

fun run_length :: "('a \<Rightarrow> 'a \<Rightarrow> error + bool) \<Rightarrow> bool \<Rightarrow> 'a \<Rightarrow> 'a list \<Rightarrow> error + nat" where
  "run_length lt descending prev [] = Inr 0"
| "run_length lt descending prev (x # xs) =
     (case lt x prev of
        Inl e \<Rightarrow> Inl e
      | Inr b \<Rightarrow>
          if b = descending
          then (case run_length lt descending x xs of Inl e \<Rightarrow> Inl e | Inr n \<Rightarrow> Inr (Suc n))
          else Inr 0)"

definition count_run :: "('a \<Rightarrow> 'a \<Rightarrow> error + bool) \<Rightarrow> 'a list \<Rightarrow> error + nat \<times> bool" where
  "count_run lt xs =
     (case xs of
        [] \<Rightarrow> Inr (0, False)
      | [x] \<Rightarrow> Inr (1, False)
      | x0 # x1 # rest \<Rightarrow>
          (case lt x1 x0 of
             Inl e \<Rightarrow> Inl e
           | Inr descending \<Rightarrow>
               (case run_length lt descending x1 rest of
                  Inl e \<Rightarrow> Inl e
                | Inr n \<Rightarrow> Inr (n + 2, descending))))"

text \<open>The binary search of \<open>binarysort\<close> for the place of \<open>pivot\<close> in \<open>xs[l:r]\<close>.\<close>

function bisect :: "('a \<Rightarrow> 'a \<Rightarrow> error + bool) \<Rightarrow> 'a \<Rightarrow> 'a list \<Rightarrow> nat \<Rightarrow> nat \<Rightarrow> error + nat" where
  "bisect lt pivot xs l r =
     (if l < r
      then (case lt pivot (xs ! (l + (r - l) div 2)) of
              Inl e \<Rightarrow> Inl e
            | Inr b \<Rightarrow>
                if b then bisect lt pivot xs l (l + (r - l) div 2)
                else bisect lt pivot xs (l + (r - l) div 2 + 1) r)
      else Inr l)"
  by pat_completeness auto
termination
  by (relation "measure (\<lambda>(lt, pivot, xs, l, r). r - l)") auto

declare bisect.simps [simp del]

fun binarysort :: "('a \<Rightarrow> 'a \<Rightarrow> error + bool) \<Rightarrow> 'a list \<Rightarrow> 'a list \<Rightarrow> error + 'a list" where
  "binarysort lt done [] = Inr done"
| "binarysort lt done (pivot # rest) =
     (case bisect lt pivot done 0 (length done) of
        Inl e \<Rightarrow> Inl e
      | Inr l \<Rightarrow> binarysort lt (take l done @ pivot # drop l done) rest)"

definition list_sort :: "('a \<Rightarrow> 'a \<Rightarrow> error + bool) \<Rightarrow> 'a list \<Rightarrow> error + 'a list" where
  "list_sort lt xs =
     (if length xs < 2 then Inr xs
      else if 64 \<le> length xs then Inl Unmodelled
      else case count_run lt xs of
             Inl e \<Rightarrow> Inl e
           | Inr (n, descending) \<Rightarrow>
               binarysort lt (if descending then rev (take n xs) else take n xs) (drop n xs))"

section \<open>Aggregates\<close>

text \<open>
  \<open>CurrentData\<close> and \<open>HistoryData\<close> derive from \<open>GenericData\<close>. Their attributes hold what
  an entry's hold, or a list of entries.
\<close>

datatype data_cls = CurrentData | HistoryData

datatype aval = V val | Entries "entry list"

record aggregate =
  data_class :: data_cls
  data_dict :: "(string \<times> aval) list"

definition data_store :: "string \<Rightarrow> aval \<Rightarrow> aggregate \<Rightarrow> aggregate" where
  "data_store name v self = self\<lparr>data_dict := AList.update name v (data_dict self)\<rparr>"

text \<open>
  \<open>for entry in value\<close>: a list gives its elements, a string its characters, a dictionary its
  keys; nothing else among the decoded values can be iterated.
\<close>

fun py_iter :: "json \<Rightarrow> error + json list" where
  "py_iter (JList xs) = Inr xs"
| "py_iter (JStr s) = Inr (map (\<lambda>c. JStr [c]) s)"
| "py_iter (JDict kvs) = Inr (map (\<lambda>kv. JStr (fst kv)) kvs)"
| "py_iter _ = Inl TypeError"

text \<open>\<open>[cls(data=entry) for entry in value if isinstance(entry, dict)]\<close>\<close>

fun build_entries :: "(json \<Rightarrow> error + entry) \<Rightarrow> json list \<Rightarrow> error + entry list" where
  "build_entries cls [] = Inr []"
| "build_entries cls (x # xs) =
     (if isinstance_dict x
      then (case cls x of
              Inl e \<Rightarrow> Inl e
            | Inr en \<Rightarrow>
                (case build_entries cls xs of Inl e \<Rightarrow> Inl e | Inr es \<Rightarrow> Inr (en # es)))
      else build_entries cls xs)"

text \<open>The setter of \<open>CurrentData.listings\<close>.\<close>

definition set_listings :: "nat option \<Rightarrow> json \<Rightarrow> aggregate \<Rightarrow> error + aggregate" where
  "set_listings API_CLASS value self =
     (case py_iter value of
        Inl e \<Rightarrow> Inl e
      | Inr xs \<Rightarrow>
          (case build_entries (CurrentDataEntries_init API_CLASS) xs of
             Inl e \<Rightarrow> Inl e
           | Inr es \<Rightarrow>
               (case list_sort entry_lt es of
                  Inl e \<Rightarrow> Inl e
                | Inr sorted_es \<Rightarrow> Inr (data_store ''_listings'' (Entries sorted_es) self))))"

text \<open>The setter of \<open>CurrentData.recent_history\<close>.\<close>

definition set_recent_history :: "nat option \<Rightarrow> json \<Rightarrow> aggregate \<Rightarrow> error + aggregate" where
  "set_recent_history API_CLASS value self =
     (case py_iter value of
        Inl e \<Rightarrow> Inl e
      | Inr xs \<Rightarrow>
          (case build_entries (HistoryDataEntries_init API_CLASS) xs of
             Inl e \<Rightarrow> Inl e
           | Inr es \<Rightarrow>
               (case list_sort entry_lt es of
                  Inl e \<Rightarrow> Inl e
                | Inr sorted_es \<Rightarrow>
                    Inr (data_store ''_recent_history'' (Entries sorted_es) self))))"

text \<open>The setter of \<open>HistoryData.entries\<close>.\<close>

definition set_entries :: "nat option \<Rightarrow> json \<Rightarrow> aggregate \<Rightarrow> error + aggregate" where
  "set_entries API_CLASS value self =
     (case py_iter value of
        Inl e \<Rightarrow> Inl e
      | Inr xs \<Rightarrow>
          (case build_entries (HistoryDataEntries_init API_CLASS) xs of
             Inl e \<Rightarrow> Inl e
           | Inr es \<Rightarrow> Inr (data_store ''_entries'' (Entries es) self)))"

text \<open>The setter of \<open>GenericData.last_upload_time\<close>: the value is in milliseconds.\<close>

definition set_last_upload_time :: "json \<Rightarrow> aggregate \<Rightarrow> aggregate" where
  "set_last_upload_time value self =
     (case as_int value of
        None \<Rightarrow> self
      | Some i \<Rightarrow>
          (case fromtimestamp (of_int i / 1000) of
             Some t \<Rightarrow> data_store ''_last_upload_time'' (V (Datetime t)) self
           | None \<Rightarrow> data_store ''_last_upload_time'' (V (J value)) self))"

text \<open>\<open>setattr(self, name, value)\<close> on an aggregate.\<close>

definition data_setattr :: "nat option \<Rightarrow> aggregate \<Rightarrow> string \<Rightarrow> json \<Rightarrow> error + aggregate" where
  "data_setattr API_CLASS self name value =
     (if special_name name then Inl Unmodelled
      else if name = ''last_upload_time'' then Inr (set_last_upload_time value self)
      else if data_class self = CurrentData \<and> name = ''listings''
        then set_listings API_CLASS value self
      else if data_class self = CurrentData \<and> name = ''recent_history''
        then set_recent_history API_CLASS value self
      else if data_class self = HistoryData \<and> name = ''entries''
        then set_entries API_CLASS value self
      else Inr (data_store name (V (J value)) self))"

text \<open>The loop of \<open>CurrentData.__init__\<close> over \<open>data.items()\<close>.\<close>

fun CurrentData_items ::
  "nat option \<Rightarrow> (string \<times> json) list \<Rightarrow> aggregate \<Rightarrow> error + aggregate" where
  "CurrentData_items API_CLASS [] self = Inr self"
| "CurrentData_items API_CLASS ((key, value) # rest) self =
     (let key' = pep8_key_name key
      in case (if isinstance_list value \<and> lower key' = ''listings''
               then data_setattr API_CLASS self key' value
               else if lower key' \<in> set [''has_data''] \<and> isinstance_int value
               then data_setattr API_CLASS self key' (py_bool value)
               else data_setattr API_CLASS self key' value) of
           Inl e \<Rightarrow> Inl e
         | Inr self' \<Rightarrow> CurrentData_items API_CLASS rest self')"

definition CurrentData_init :: "nat option \<Rightarrow> json \<Rightarrow> error + aggregate" where
  "CurrentData_init API_CLASS data =
     (let self = \<lparr>data_class = CurrentData,
                  data_dict = map (\<lambda>(k, v). (k, V v)) (Generic_init API_CLASS data)\<rparr>
      in case data of
           JDict kvs \<Rightarrow> CurrentData_items API_CLASS kvs self
         | _ \<Rightarrow> Inl (AttributeError ''items''))"

text \<open>The loop of \<open>HistoryData.__init__\<close> over \<open>data.items()\<close>.\<close>

fun HistoryData_items ::
  "nat option \<Rightarrow> (string \<times> json) list \<Rightarrow> aggregate \<Rightarrow> error + aggregate" where
  "HistoryData_items API_CLASS [] self = Inr self"
| "HistoryData_items API_CLASS ((key, value) # rest) self =
     (let key' = pep8_key_name key
      in case (if lower key' = ''entries'' \<and> isinstance_list value
                  \<and> (case value of JList xs \<Rightarrow> 1 < length xs | _ \<Rightarrow> False)
               then data_setattr API_CLASS self ''entries'' value
               else data_setattr API_CLASS self key' value) of
           Inl e \<Rightarrow> Inl e
         | Inr self' \<Rightarrow> HistoryData_items API_CLASS rest self')"

definition HistoryData_init :: "nat option \<Rightarrow> json \<Rightarrow> error + aggregate" where
  "HistoryData_init API_CLASS data =
     (let self = \<lparr>data_class = HistoryData,
                  data_dict = map (\<lambda>(k, v). (k, V v)) (Generic_init API_CLASS data)\<rparr>;
          self = data_store ''_repr_keys''
                   (V (J (JList (map JStr [''item_id'', ''world_name'', ''dc_name'',
                                           ''entries'']))))
                   self
      in case data of
           JDict kvs \<Rightarrow> HistoryData_items API_CLASS kvs self
         | _ \<Rightarrow> Inl (AttributeError ''items''))"

subsection \<open>Reading an attribute of an aggregate\<close>

text \<open>
  The instance dictionary, then the class: its members that are neither properties nor
  special are the logger and, on \<open>CurrentData\<close>, the method \<open>sort_listings\<close>; the model
  leaves them out.
\<close>

definition data_lookup :: "aggregate \<Rightarrow> string \<Rightarrow> error + aval" where
  "data_lookup self name =
     (case map_of (data_dict self) name of
        Some v \<Rightarrow> Inr v
      | None \<Rightarrow>
          if name = ''_logger'' \<or> (data_class self = CurrentData \<and> name = ''sort_listings'')
          then Inl Unmodelled
          else Inl (AttributeError name))"

text \<open>\<open>try: ... except AttributeError: return None\<close>\<close>

definition except_AttributeError :: "error + aval \<Rightarrow> error + aval" where
  "except_AttributeError r =
     (case r of Inl (AttributeError name) \<Rightarrow> Inr (V (J JNull)) | _ \<Rightarrow> r)"

text \<open>
  \<open>sorted(v)\<close> on what an attribute can hold, with the order of the entries. \<open>None\<close>,
  numbers, a \<open>datetime\<close> and a client cannot be iterated. Sorting a decoded string, list or
  dictionary needs the order of Python on decoded values, which the model leaves out.
\<close>

fun py_sorted :: "aval \<Rightarrow> error + aval" where
  "py_sorted (Entries es) =
     (case list_sort entry_lt es of Inl e \<Rightarrow> Inl e | Inr sorted_es \<Rightarrow> Inr (Entries sorted_es))"
| "py_sorted (V (J (JStr s))) = Inl Unmodelled"
| "py_sorted (V (J (JList xs))) = Inl Unmodelled"
| "py_sorted (V (J (JDict kvs))) = Inl Unmodelled"
| "py_sorted (V v) = Inl TypeError"

text \<open>
  \<open>object.__getattribute__\<close> on an aggregate, which \<open>GenericData.__getattribute__\<close> calls
  through \<open>super()\<close>. A property runs its getter, and the getter reads its private field
  through \<open>GenericData.__getattribute__\<close> again.
\<close>

definition object_getattribute :: "aggregate \<Rightarrow> string \<Rightarrow> error + aval" where
  "object_getattribute self name =
     (if special_name name then Inl Unmodelled
      else if name = ''last_upload_time''
        then except_AttributeError (data_lookup self ''_last_upload_time'')
      else if data_class self = CurrentData \<and> name = ''listings''
        then except_AttributeError (data_lookup self ''_listings'')
      else if data_class self = CurrentData \<and> name = ''recent_history''
        then except_AttributeError (data_lookup self ''_recent_history'')
      else if data_class self = HistoryData \<and> name = ''entries''
        then (case except_AttributeError (data_lookup self ''_entries'') of
                Inl e \<Rightarrow> Inl e
              | Inr v \<Rightarrow> py_sorted v)
      else data_lookup self name)"

text \<open>\<open>GenericData.__getattribute__\<close>: what \<open>self.name\<close> is on an aggregate.\<close>

definition data_getattr :: "aggregate \<Rightarrow> string \<Rightarrow> error + aval" where
  "data_getattr self name = except_AttributeError (object_getattribute self name)"

section \<open>The client\<close>

text \<open>
  A \<open>UniversalisAPI\<close> object: its identity and the attributes the modelled methods use
  (\<open>max_api_calls\<close> is the field \<open>_max_api_calls\<close> behind the property of that name, and
  likewise the two field lists). The table \<open>item_dict\<close> loaded from \<open>items.json\<close> is used by
  the price suggestion only and is left out.
\<close>

record api =
  ident :: nat
  session :: "nat option"
  base_api_url :: string
  api_call_time :: int
  max_api_calls :: int
  single_item_fields :: string
  multi_item_fields :: string

text \<open>
  \<open>UniversalisAPI(session)\<close>, for the new object \<open>ident\<close>, at the time \<open>now\<close>, given whether
  \<open>items.json\<close> exists and the global \<open>API_CLASS\<close>; it returns the object or the exception,
  and the global afterwards.
\<close>

definition UniversalisAPI_init ::
  "nat \<Rightarrow> nat option \<Rightarrow> bool \<Rightarrow> int \<Rightarrow> nat option \<Rightarrow> (error + api) \<times> nat option" where
  "UniversalisAPI_init new_ident session_arg items_json_exists now API_CLASS =
     (let self = \<lparr>ident = new_ident,
                  session = session_arg,
                  base_api_url = ''https://universalis.app/api/v2'',
                  api_call_time = now,
                  max_api_calls = 20,
                  single_item_fields = ''&fields=itemID%2Clistings.quantity%2Clistings.worldName%2Clistings.pricePerUnit%2Clistings.hq%2Clistings.total%2Clistings.tax%2Clistings.retainerName%2Clistings.creatorName%2Clistings.lastReviewTime%2ClastUploadTime'',
                  multi_item_fields = ''&fields=items.itemID%2Citems.listings.quantity%2Citems.listings.worldName%2Citems.listings.pricePerUnit%2Citems.listings.hq%2Citems.listings.total%2Citems.listings.tax%2Citems.listings.retainerName%2Citems.listings.creatorName%2Citems.listings.lastReviewTime%2Citems.lastUploadTime''\<rparr>
      in if items_json_exists then (Inr self, Some new_ident)
         else (Inl FileNotFoundError, API_CLASS))"

text \<open>The setter of the property \<open>max_api_calls\<close>; its argument is an \<open>int\<close> by its type here.\<close>

definition set_max_api_calls :: "int \<Rightarrow> api \<Rightarrow> api" where
  "set_max_api_calls value self = self\<lparr>max_api_calls := value\<rparr>"

section \<open>The gateway\<close>

text \<open>
  The world outside the client: a clock in microseconds, which \<open>datetime.now()\<close> reads, and
  the requests sent so far, each with the time at which it was sent. Time passes while the
  caller sleeps and while a request is answered, and at no other moment. The server is a
  function: the \<open>k\<close>-th request, for \<open>url\<close>, is answered after \<open>latency\<close> microseconds with a
  status and a decoded body. Failures of the connection and of the decoding are not
  modelled.
\<close>

record world =
  clock :: int
  sent :: "(int \<times> string) list"

type_synonym server = "nat \<Rightarrow> string \<Rightarrow> int \<times> int \<times> json"

text \<open>\<open>await asyncio.sleep(delay)\<close>, the delay in microseconds.\<close>

definition sleep :: "int \<Rightarrow> world \<Rightarrow> world" where
  "sleep delay w = w\<lparr>clock := clock w + delay\<rparr>"

text \<open>\<open>await self.session.get(url=url)\<close>: the status and the body, and the world after.\<close>

definition session_get :: "server \<Rightarrow> string \<Rightarrow> world \<Rightarrow> (int \<times> json) \<times> world" where
  "session_get srv url w =
     (case srv (length (sent w)) url of
        (latency, status, body) \<Rightarrow>
          ((status, body), w\<lparr>clock := clock w + latency, sent := sent w @ [(clock w, url)]\<rparr>))"

text \<open>
  \<open>UniversalisAPI._request\<close>. The division \<open>1000 / self.max_api_calls\<close> raises when the
  limit is 0. The sleep time is \<open>(max_diff - (cur_time - self.api_call_time)).total_seconds()
  + 0.1\<close> seconds.
\<close>

definition request :: "server \<Rightarrow> string \<Rightarrow> api \<Rightarrow> world \<Rightarrow> (error + json) \<times> api \<times> world" where
  "request srv url self w =
     (let cur_time = clock w
      in if max_api_calls self = 0 then (Inl ZeroDivisionError, self, w)
         else
           let max_diff = timedelta_milliseconds (1000 / of_int (max_api_calls self));
               w = (if cur_time - api_call_time self < max_diff
                    then sleep (max_diff - (cur_time - api_call_time self) + 100000) w
                    else w);
               self = (if session self = None then self\<lparr>session := Some 0\<rparr> else self)
           in case session_get srv url w of
                ((status, body), w) \<Rightarrow>
                  if status \<noteq> 200
                    then (Inl (ConnectionError Generic_failure status url), self, w)
                  else if status = 400
                    then (Inl (ConnectionError Invalid_parameters status url), self, w)
                  else if status = 404
                    then (Inl (ConnectionError Invalid_world_dc_or_item status url), self, w)
                  else (Inr body, self\<lparr>api_call_time := clock w\<rparr>, w))"

section \<open>The facade\<close>

text \<open>\<open>str(n)\<close> for an integer.\<close>

fun str_nat :: "nat \<Rightarrow> string" where
  "str_nat n = (if n < 10 then [char_of (48 + n)]
                else str_nat (n div 10) @ [char_of (48 + n mod 10)])"

declare str_nat.simps [simp del]

definition str_int :: "int \<Rightarrow> string" where
  "str_int i = (if i < 0 then CHR ''-'' # str_nat (nat (- i)) else str_nat (nat i))"

text \<open>\<open>sep.join(xs)\<close>\<close>

fun join :: "string \<Rightarrow> string list \<Rightarrow> string" where
  "join sep [] = []"
| "join sep [x] = x"
| "join sep (x # y # ys) = x @ sep @ join sep (y # ys)"

text \<open>\<open>range(start, stop, step)\<close> for a positive step.\<close>

function py_range :: "nat \<Rightarrow> nat \<Rightarrow> nat \<Rightarrow> nat list" where
  "py_range start stop step =
     (if start < stop \<and> 0 < step then start # py_range (start + step) stop step else [])"
  by pat_completeness auto
termination
  by (relation "measure (\<lambda>(start, stop, step). stop - start)") auto

declare py_range.simps [simp del]

text \<open>An item ID is given as a string or as an integer.\<close>

datatype item = ItemStr string | ItemInt int

fun item_str :: "item \<Rightarrow> string" where
  "item_str (ItemInt i) = str_int i"
| "item_str (ItemStr s) = s"

text \<open>
  The enumerations of \<open>_enums\<close> are not part of the sources at hand. A world or data center
  is given by its \<open>name\<close> and an item quality by the text of its \<open>value\<close>, as the URL has
  them.
\<close>

definition get_current_data ::
  "server \<Rightarrow> nat option \<Rightarrow> api \<Rightarrow> world \<Rightarrow> item \<Rightarrow> string \<Rightarrow> int \<Rightarrow> int \<Rightarrow> string \<Rightarrow> bool
   \<Rightarrow> (error + aggregate) \<times> api \<times> world" where
  "get_current_data srv API_CLASS self w item world_or_dc num_listings num_history_entries
     item_quality trim_item_fields =
     (let api_url = base_api_url self @ ''/'' @ world_or_dc @ ''/'' @ item_str item
                    @ ''?listings='' @ str_int num_listings
                    @ ''&entries='' @ str_int num_history_entries
                    @ ''&hq='' @ item_quality;
          api_url = (if trim_item_fields then api_url @ single_item_fields self else api_url)
      in case request srv api_url self w of
           (Inl e, self, w) \<Rightarrow> (Inl e, self, w)
         | (Inr res, self, w) \<Rightarrow> (CurrentData_init API_CLASS res, self, w))"

text \<open>\<open>[CurrentData(data=value) for value in values]\<close>\<close>

fun build_aggregates :: "nat option \<Rightarrow> json list \<Rightarrow> error + aggregate list" where
  "build_aggregates API_CLASS [] = Inr []"
| "build_aggregates API_CLASS (x # xs) =
     (case CurrentData_init API_CLASS x of
        Inl e \<Rightarrow> Inl e
      | Inr a \<Rightarrow>
          (case build_aggregates API_CLASS xs of Inl e \<Rightarrow> Inl e | Inr as \<Rightarrow> Inr (a # as)))"

text \<open>
  What one response adds to \<open>results\<close> in \<open>get_bulk_current_data\<close>: nothing when
  \<open>res.get("items")\<close> is \<open>None\<close>, else an aggregate for each of \<open>res["items"].values()\<close>.
\<close>

definition bulk_items :: "nat option \<Rightarrow> json \<Rightarrow> error + aggregate list" where
  "bulk_items API_CLASS res =
     (case res of
        JDict kvs \<Rightarrow>
          (case map_of kvs ''items'' of
             None \<Rightarrow> Inr []
           | Some JNull \<Rightarrow> Inr []
           | Some (JDict items) \<Rightarrow> build_aggregates API_CLASS (map snd items)
           | Some _ \<Rightarrow> Inl (AttributeError ''values''))
      | _ \<Rightarrow> Inl (AttributeError ''get''))"

text \<open>
  The loop \<open>for i in range(0, len(query), 100)\<close> of \<open>get_bulk_current_data\<close>, over the
  values of \<open>i\<close> that remain.
\<close>

fun bulk_loop ::
  "server \<Rightarrow> nat option \<Rightarrow> string list \<Rightarrow> string \<Rightarrow> int \<Rightarrow> int \<Rightarrow> string \<Rightarrow> bool \<Rightarrow> nat list
   \<Rightarrow> aggregate list \<Rightarrow> api \<Rightarrow> world \<Rightarrow> (error + aggregate list) \<times> api \<times> world" where
  "bulk_loop srv API_CLASS query world_or_dc num_listings num_history_entries item_quality
     trim_item_fields [] results self w = (Inr results, self, w)"
| "bulk_loop srv API_CLASS query world_or_dc num_listings num_history_entries item_quality
     trim_item_fields (i # is) results self w =
     (let api_url = base_api_url self @ ''/'' @ world_or_dc @ ''/'' @ join '','' query
                    @ ''?listings='' @ str_int num_listings
                    @ ''&entries='' @ str_int num_history_entries
                    @ ''&hq='' @ item_quality;
          api_url = (if trim_item_fields then api_url @ multi_item_fields self else api_url)
      in case request srv api_url self w of
           (Inl e, self, w) \<Rightarrow> (Inl e, self, w)
         | (Inr res, self, w) \<Rightarrow>
             (case bulk_items API_CLASS res of
                Inl e \<Rightarrow> (Inl e, self, w)
              | Inr new \<Rightarrow>
                  bulk_loop srv API_CLASS query world_or_dc num_listings num_history_entries
                    item_quality trim_item_fields is (results @ new) self w))"

definition get_bulk_current_data ::
  "server \<Rightarrow> nat option \<Rightarrow> api \<Rightarrow> world \<Rightarrow> item list \<Rightarrow> string \<Rightarrow> int \<Rightarrow> int \<Rightarrow> string \<Rightarrow> bool
   \<Rightarrow> (error + aggregate list) \<times> api \<times> world" where
  "get_bulk_current_data srv API_CLASS self w items world_or_dc num_listings
     num_history_entries item_quality trim_item_fields =
     (let query = map item_str items
      in bulk_loop srv API_CLASS query world_or_dc num_listings num_history_entries
           item_quality trim_item_fields (py_range 0 (length query) 100) [] self w)"

definition get_history_data ::
  "server \<Rightarrow> nat option \<Rightarrow> api \<Rightarrow> world \<Rightarrow> item \<Rightarrow> string \<Rightarrow> int \<Rightarrow> int \<Rightarrow> int \<Rightarrow> int
   \<Rightarrow> (error + aggregate) \<times> api \<times> world" where
  "get_history_data srv API_CLASS self w item data_center num_listings min_price max_price
     history =
     (let api_url = base_api_url self @ ''/history/'' @ data_center @ ''/'' @ item_str item
                    @ ''?entriesToReturn='' @ str_int num_listings
                    @ ''&statsWithin='' @ str_int history
                    @ ''&minSalePrice='' @ str_int min_price
                    @ ''&maxSalePrice='' @ str_int max_price
      in case request srv api_url self w of
           (Inl e, self, w) \<Rightarrow> (Inl e, self, w)
         | (Inr res, self, w) \<Rightarrow> (HistoryData_init API_CLASS res, self, w))"

text \<open>
  A caller that calls \<open>_request\<close> for each of the URLs in turn and catches what it raises.
\<close>

fun burst :: "server \<Rightarrow> string list \<Rightarrow> api \<Rightarrow> world \<Rightarrow> api \<times> world" where
  "burst srv [] self w = (self, w)"
| "burst srv (url # urls) self w =
     (case request srv url self w of (r, self', w') \<Rightarrow> burst srv urls self' w')"


section \<open>The normalizer is idempotent\<close>

lemma isupper_lower_chr: "\<not> isupper (lower_chr c)"
proof (cases "isupper c")
  case True
  then have "(of_char c :: nat) \<le> 222" by (auto simp: isupper_def Let_def)
  then have "(of_char (char_of ((of_char c :: nat) + 32)) :: nat) = of_char c + 32"
    by (simp add: of_char_of)
  with True show ?thesis
    by (auto simp: lower_chr_def isupper_def Let_def)
next
  case False
  then show ?thesis by (simp add: lower_chr_def)
qed

lemma isupper_underscore: "\<not> isupper CHR ''_''"
  by (simp add: isupper_def)

lemma pep8_loop_no_upper:
  "\<forall>c \<in> set temp. \<not> isupper c \<Longrightarrow> \<forall>c \<in> set (pep8_loop temp es). \<not> isupper c"
proof (induction es arbitrary: temp)
  case Nil
  then show ?case by simp
next
  case (Cons e es)
  show ?case
  proof (cases "isupper e")
    case True
    have "\<forall>c \<in> set (temp @ CHR ''_'' # lower [e]). \<not> isupper c"
      using Cons.prems by (auto simp: lower_def isupper_lower_chr isupper_underscore)
    then have "\<forall>c \<in> set (pep8_loop (temp @ CHR ''_'' # lower [e]) es). \<not> isupper c"
      by (rule Cons.IH)
    with True show ?thesis by simp
  next
    case False
    have "\<forall>c \<in> set (temp @ [e]). \<not> isupper c"
      using Cons.prems False by auto
    then have "\<forall>c \<in> set (pep8_loop (temp @ [e]) es). \<not> isupper c"
      by (rule Cons.IH)
    with False show ?thesis by simp
  qed
qed

lemma pep8_loop_fixed:
  "\<forall>c \<in> set es. \<not> isupper c \<Longrightarrow> pep8_loop temp es = temp @ es"
  by (induction es arbitrary: temp) auto

lemma lower_fixed: "\<forall>c \<in> set s. \<not> isupper c \<Longrightarrow> lower s = s"
  by (induction s) (auto simp: lower_def lower_chr_def)

lemma str_contains_subset: "str_contains sub s \<Longrightarrow> set sub \<subseteq> set s"
proof (induction s)
  case Nil
  then show ?case by simp
next
  case (Cons c cs)
  from Cons.prems have "take (length sub) (c # cs) = sub \<or> str_contains sub cs" by simp
  then show ?case
  proof
    assume "take (length sub) (c # cs) = sub"
    then have "set sub = set (take (length sub) (c # cs))" by simp
    then show ?thesis using set_take_subset by fast
  next
    assume "str_contains sub cs"
    with Cons.IH show ?thesis by auto
  qed
qed

lemma pep8_substitute_fixed:
  "\<forall>(key, val) \<in> set tbl. \<exists>c \<in> set key. isupper c \<Longrightarrow> \<forall>c \<in> set s. \<not> isupper c
   \<Longrightarrow> pep8_substitute tbl s = s"
proof (induction tbl)
  case Nil
  then show ?case by simp
next
  case (Cons kv tbl)
  obtain key val where kv: "kv = (key, val)" by (cases kv)
  with Cons.prems(1) obtain c where c: "c \<in> set key" "isupper c" by auto
  have "\<not> str_contains key s"
  proof
    assume "str_contains key s"
    then have "c \<in> set s" using c(1) str_contains_subset by blast
    with Cons.prems(2) c(2) show False by blast
  qed
  with Cons kv show ?case by simp
qed

lemma pep8_key_name_no_upper: "\<forall>c \<in> set (pep8_key_name k). \<not> isupper c"
  unfolding pep8_key_name_def pep8_key_name_with_def IGNORED_KEYS_def Let_def
  by simp (rule pep8_loop_no_upper, auto simp: lower_def isupper_lower_chr)

lemma pep8_key_name_fixed:
  assumes "\<forall>c \<in> set s. \<not> isupper c"
  shows "pep8_key_name s = s"
proof -
  have "\<forall>(key, val) \<in> set PRE_FORMATTED_KEYS. \<exists>c \<in> set key. isupper c"
    by (simp add: PRE_FORMATTED_KEYS_def isupper_def)
  then have s: "pep8_substitute PRE_FORMATTED_KEYS s = s"
    using assms by (rule pep8_substitute_fixed)
  have t: "\<forall>c \<in> set (take 1 s). \<not> isupper c" using assms by (meson in_set_takeD)
  have d: "\<forall>c \<in> set (drop 1 s). \<not> isupper c" using assms by (meson in_set_dropD)
  show ?thesis
    unfolding pep8_key_name_def pep8_key_name_with_def IGNORED_KEYS_def Let_def
    using pep8_loop_fixed [OF d, of "take 1 s"] lower_fixed [OF t] s
    by simp
qed

text \<open>
  Claim C9. With the default ignore list and substitution table, normalizing a key twice
  gives what normalizing it once gives, for every key. The normalizer is a function of the
  key alone: it reads and writes nothing else. (Keys are strings over the code points 0 to
  255, as all strings here.)
\<close>

theorem pep8_key_name_idempotent: "pep8_key_name (pep8_key_name k) = pep8_key_name k"
  by (rule pep8_key_name_fixed) (rule pep8_key_name_no_upper)

section \<open>The gateway\<close>

text \<open>What a call of \<open>_request\<close> does when the limit is not 0, in one equation.\<close>

lemma request_outcome:
  assumes "srv (length (sent w)) url = (latency, status, body)"
    and "max_api_calls self \<noteq> 0"
  shows "request srv url self w =
     (let max_diff = timedelta_milliseconds (1000 / of_int (max_api_calls self));
          elapsed = clock w - api_call_time self;
          dispatch = (if elapsed < max_diff then clock w + (max_diff - elapsed + 100000)
                      else clock w);
          w' = \<lparr>clock = dispatch + latency, sent = sent w @ [(dispatch, url)]\<rparr>;
          self' = (if session self = None then self\<lparr>session := Some 0\<rparr> else self)
      in if status = 200 then (Inr body, self'\<lparr>api_call_time := dispatch + latency\<rparr>, w')
         else (Inl (ConnectionError Generic_failure status url), self', w'))"
  using assms
  by (simp add: request_def session_get_def sleep_def Let_def)

lemma request_zero:
  "max_api_calls self = 0 \<Longrightarrow> request srv url self w = (Inl ZeroDivisionError, self, w)"
  by (simp add: request_def)

lemma round_half_even_of_int: "round_half_even (of_int k) = k"
  by (simp add: round_half_even_def)

lemma timedelta_milliseconds_of_int: "timedelta_milliseconds (of_int k) = k * 1000"
proof -
  have "(of_int k * 1000 :: rat) = of_int (k * 1000)" by simp
  then show ?thesis
    unfolding timedelta_milliseconds_def by (simp only: round_half_even_of_int)
qed

lemma timedelta_milliseconds_50: "timedelta_milliseconds 50 = 50000"
  using timedelta_milliseconds_of_int [of 50] by simp

lemma max_diff_20: "timedelta_milliseconds (1000 / of_int 20) = 50000"
  by (simp add: timedelta_milliseconds_50)

text \<open>
  Claim C2. A call of \<open>_request\<close> sets \<open>api_call_time\<close> to the time after the response
  exactly when the response has status 200, and then returns the body. In every other case
  (another status, or the limit 0, when no request is sent at all) it raises and leaves
  \<open>api_call_time\<close> as it was; so after any number of failed calls in a row
  \<open>api_call_time\<close> is still what it was before them.
\<close>

theorem request_call_time_updated_iff_200:
  assumes "srv (length (sent w)) url = (latency, status, body)"
    and "request srv url self w = (r, self', w')"
  shows "(max_api_calls self \<noteq> 0 \<and> status = 200
            \<longrightarrow> r = Inr body \<and> api_call_time self' = clock w')
       \<and> (max_api_calls self = 0 \<or> status \<noteq> 200
            \<longrightarrow> (\<exists>e. r = Inl e) \<and> api_call_time self' = api_call_time self)
       \<and> ((\<forall>k u. fst (snd (srv k u)) \<noteq> 200)
            \<longrightarrow> (\<forall>urls. api_call_time (fst (burst srv urls self w)) = api_call_time self))"
proof -
  have one: "(max_api_calls self \<noteq> 0 \<and> status = 200
                \<longrightarrow> r = Inr body \<and> api_call_time self' = clock w')
           \<and> (max_api_calls self = 0 \<or> status \<noteq> 200
                \<longrightarrow> (\<exists>e. r = Inl e) \<and> api_call_time self' = api_call_time self)"
  proof (cases "max_api_calls self = 0")
    case True
    with assms(2) show ?thesis by (auto simp: request_zero)
  next
    case False
    from request_outcome [of srv w url latency status body self, OF assms(1) False]
      assms(2) False
    show ?thesis
      by (auto simp: Let_def split: if_splits)
  qed
  have many: "api_call_time (fst (burst srv urls a v)) = api_call_time a"
    if fail: "\<forall>k u. fst (snd (srv k u)) \<noteq> 200" for urls a v
  proof (induction urls arbitrary: a v)
    case Nil
    show ?case by simp
  next
    case (Cons u urls)
    obtain r1 a1 v1 where req: "request srv u a v = (r1, a1, v1)"
      by (cases "request srv u a v") auto
    obtain l1 s1 b1 where srv: "srv (length (sent v)) u = (l1, s1, b1)"
      by (cases "srv (length (sent v)) u") auto
    with fail have ne: "s1 \<noteq> 200" by (metis fst_conv snd_conv)
    have "api_call_time a1 = api_call_time a"
    proof (cases "max_api_calls a = 0")
      case True
      with req show ?thesis by (simp add: request_zero)
    next
      case False
      from request_outcome [of srv v u l1 s1 b1 a, OF srv False] req ne show ?thesis
        by (auto simp: Let_def split: if_splits)
    qed
    with Cons.IH [of a1 v1] req show ?case by simp
  qed
  from one many show ?thesis by blast
qed

theorem request_call_time_updated_iff_200_witness:
  "(\<exists>self' w'.
      request (\<lambda>k u. (3, 200, JNull)) ''u''
        \<lparr>ident = 0, session = None, base_api_url = ''b'', api_call_time = 0,
           max_api_calls = 20, single_item_fields = [], multi_item_fields = []\<rparr>
        \<lparr>clock = 7, sent = []\<rparr> = (Inr JNull, self', w')
      \<and> api_call_time self' = clock w' \<and> clock w' = 150003)
   \<and> (\<exists>e self' w'.
      request (\<lambda>k u. (3, 500, JNull)) ''u''
        \<lparr>ident = 0, session = None, base_api_url = ''b'', api_call_time = 0,
           max_api_calls = 20, single_item_fields = [], multi_item_fields = []\<rparr>
        \<lparr>clock = 7, sent = []\<rparr> = (Inl e, self', w')
      \<and> api_call_time self' = 0)"
proof -
  let ?self = "\<lparr>ident = 0, session = None, base_api_url = ''b'', api_call_time = 0,
                 max_api_calls = 20, single_item_fields = [], multi_item_fields = []\<rparr>"
  let ?w = "\<lparr>clock = 7, sent = []\<rparr>"
  let ?ok = "\<lambda>(k::nat) (u::string). (3::int, 200::int, JNull)"
  let ?ko = "\<lambda>(k::nat) (u::string). (3::int, 500::int, JNull)"
  obtain r1 a1 v1 where ok: "request ?ok ''u'' ?self ?w = (r1, a1, v1)"
    using prod_cases3 by blast
  obtain r2 a2 v2 where ko: "request ?ko ''u'' ?self ?w = (r2, a2, v2)"
    using prod_cases3 by blast
  have v1: "clock v1 = 150003"
    using ok request_outcome [of ?ok ?w "''u''" 3 200 JNull ?self]
    by (auto simp: Let_def max_diff_20 timedelta_milliseconds_50)
  have "?ok (length (sent ?w)) ''u'' = (3, 200, JNull)" by simp
  from request_call_time_updated_iff_200 [OF this ok]
  have 1: "r1 = Inr JNull \<and> api_call_time a1 = clock v1" by simp
  have "?ko (length (sent ?w)) ''u'' = (3, 500, JNull)" by simp
  from request_call_time_updated_iff_200 [OF this ko]
  have 2: "(\<exists>e. r2 = Inl e) \<and> api_call_time a2 = 0" by simp
  from 1 2 ok ko v1 show ?thesis by auto
qed

text \<open>
  Claim C3, at the two statuses where the code leaves it. The test \<open>status != 200\<close> comes
  first in \<open>_request\<close>, so the branches for 400 and 404 after it are never taken: a response
  with status 400 or 404 raises the error with the generic message, the one every other
  status but 200 gets, and not the message for invalid parameters or for an unknown world,
  data center or item. The error carries the status and the URL.
\<close>

theorem request_400_404_generic_failure:
  "fst (request (\<lambda>k u. (latency, 400, body)) url (self\<lparr>max_api_calls := 20\<rparr>) w)
     = Inl (ConnectionError Generic_failure 400 url)
   \<and> fst (request (\<lambda>k u. (latency, 404, body)) url (self\<lparr>max_api_calls := 20\<rparr>) w)
     = Inl (ConnectionError Generic_failure 404 url)"
  by (simp add: request_def session_get_def Let_def)

text \<open>
  Claim C6. Let \<open>min_interval\<close> be \<open>1000 / max_api_calls\<close> milliseconds, as a
  \<open>timedelta\<close>, and \<open>elapsed\<close> the time since \<open>api_call_time\<close>. A call of \<open>_request\<close>
  with \<open>elapsed < min_interval\<close> sends its request \<open>(min_interval - elapsed) + 100 ms\<close>
  after the call; a call with \<open>elapsed \<ge> min_interval\<close> sends it at once. With the default
  limit 20 the interval is 50 ms, and when a call succeeds and the next call is made as soon
  as it returns, the two requests are sent at least 150 ms apart. 20 is the limit of a
  newly made client. (Times are in microseconds.)
\<close>

theorem request_throttle:
  assumes "srv (length (sent w)) url = (latency, status, body)"
    and "max_api_calls self \<noteq> 0"
    and "request srv url self w = (r, self', w')"
    and "min_interval = timedelta_milliseconds (1000 / of_int (max_api_calls self))"
    and "elapsed = clock w - api_call_time self"
  shows "(elapsed < min_interval
            \<longrightarrow> sent w' = sent w @ [(clock w + ((min_interval - elapsed) + 100000), url)])
       \<and> (min_interval \<le> elapsed \<longrightarrow> sent w' = sent w @ [(clock w, url)])
       \<and> (\<forall>i s ex now g a g'. UniversalisAPI_init i s ex now g = (Inr a, g')
            \<longrightarrow> max_api_calls a = 20)
       \<and> (max_api_calls self = 20 \<longrightarrow> min_interval = 50000)
       \<and> (max_api_calls self = 20 \<and> 0 \<le> latency \<and> r = Inr body
            \<longrightarrow> (\<forall>url2 r2 self2 w2. request srv url2 self' w' = (r2, self2, w2)
                  \<longrightarrow> (\<exists>t1 t2. sent w2 = sent w @ [(t1, url), (t2, url2)]
                               \<and> 150000 \<le> t2 - t1)))"
proof -
  note out = request_outcome [of srv w url latency status body self, OF assms(1,2)]
  have a: "elapsed < min_interval
             \<longrightarrow> sent w' = sent w @ [(clock w + ((min_interval - elapsed) + 100000), url)]"
    using out assms(3,4,5) by (auto simp: Let_def split: if_splits)
  have b: "min_interval \<le> elapsed \<longrightarrow> sent w' = sent w @ [(clock w, url)]"
    using out assms(3,4,5) by (auto simp: Let_def split: if_splits)
  have c: "max_api_calls self = 20 \<longrightarrow> min_interval = 50000"
    using assms(4) max_diff_20 by simp
  have e: "\<forall>i s ex now g a g'. UniversalisAPI_init i s ex now g = (Inr a, g')
             \<longrightarrow> max_api_calls a = 20"
    by (auto simp: UniversalisAPI_init_def split: if_splits)
  have d: "\<exists>t1 t2. sent w2 = sent w @ [(t1, url), (t2, url2)] \<and> 150000 \<le> t2 - t1"
    if n: "max_api_calls self = 20" and lat: "0 \<le> latency" and ok: "r = Inr body"
      and next_call: "request srv url2 self' w' = (r2, self2, w2)"
    for url2 r2 self2 w2
  proof -
    obtain t1 where t1: "sent w' = sent w @ [(t1, url)]" "clock w' = t1 + latency"
      using out assms(3) by (auto simp: Let_def split: if_splits)
    have st: "status = 200"
      using out assms(3) ok by (auto simp: Let_def split: if_splits)
    have self': "api_call_time self' = clock w'" "max_api_calls self' = 20"
      using out assms(3) st n by (auto simp: Let_def split: if_splits)
    obtain l2 s2 b2 where srv2: "srv (length (sent w')) url2 = (l2, s2, b2)"
      using prod_cases3 by blast
    have ne: "max_api_calls self' \<noteq> 0" using self'(2) by simp
    have "sent w2 = sent w' @ [(clock w' + 150000, url2)]"
      using request_outcome [of srv w' url2 l2 s2 b2 self', OF srv2 ne] next_call self'
      by (auto simp: Let_def max_diff_20 timedelta_milliseconds_50 split: if_splits)
    with t1 lat show ?thesis by auto
  qed
  from a b c d e show ?thesis by blast
qed

theorem request_throttle_witness:
  "\<exists>r self' w' r2 self2 w2.
      request (\<lambda>k u. (3, 200, JNull)) ''u''
        \<lparr>ident = 0, session = None, base_api_url = ''b'', api_call_time = 0,
           max_api_calls = 20, single_item_fields = [], multi_item_fields = []\<rparr>
        \<lparr>clock = 7, sent = []\<rparr> = (r, self', w')
      \<and> sent w' = [(150000, ''u'')]
      \<and> request (\<lambda>k u. (3, 200, JNull)) ''v'' self' w' = (r2, self2, w2)
      \<and> sent w2 = [(150000, ''u''), (300003, ''v'')]"
proof -
  let ?self = "\<lparr>ident = 0, session = None, base_api_url = ''b'', api_call_time = 0,
                 max_api_calls = 20, single_item_fields = [], multi_item_fields = []\<rparr>"
  let ?w = "\<lparr>clock = 7, sent = []\<rparr>"
  let ?srv = "\<lambda>(k::nat) (u::string). (3::int, 200::int, JNull)"
  obtain r a v where one: "request ?srv ''u'' ?self ?w = (r, a, v)"
    using prod_cases3 by blast
  obtain r2 a2 v2 where two: "request ?srv ''v'' a v = (r2, a2, v2)"
    using prod_cases3 by blast
  have srv: "?srv (length (sent ?w)) ''u'' = (3, 200, JNull)" by simp
  have ne: "max_api_calls ?self \<noteq> 0" by simp
  note out = request_outcome [of ?srv ?w "''u''" 3 200 JNull ?self, OF srv ne]
  have r: "r = Inr JNull" and v: "clock v = 150003"
    using out one by (auto simp: Let_def max_diff_20 timedelta_milliseconds_50)
  note thr = request_throttle [OF srv ne one refl refl]
  have s1: "sent v = [(150000, ''u'')]"
    using thr by (simp add: max_diff_20 timedelta_milliseconds_50)
  have srv2: "?srv (length (sent v)) ''v'' = (3, 200, JNull)" by simp
  have a: "api_call_time a = 150003" "max_api_calls a = 20"
    using out one by (auto simp: Let_def max_diff_20 timedelta_milliseconds_50)
  then have ne2: "max_api_calls a \<noteq> 0" by simp
  have "sent v2 = sent v @ [(300003, ''v'')]"
    using request_throttle [OF srv2 ne2 two refl refl] a v by (simp add: max_diff_20 timedelta_milliseconds_50)
  with s1 one two show ?thesis by auto
qed

section \<open>Entries: equality and order\<close>

lemma datetime_lt_iff:
  "(isinstance_datetime s \<and> isinstance_datetime t \<and> datetime_lt s t)
     = (\<exists>x y. s = Datetime x \<and> t = Datetime y \<and> x < y)"
  by (cases s; cases t) auto

text \<open>
  Claim C8. Take two entries of the same class whose \<open>hq\<close> is set, to \<open>ha\<close> and \<open>hb\<close>; the
  flags match when \<open>ha == hb\<close> in Python, which for two booleans is that they are the same.

  Listing entries: they are equal exactly when the flags match. One is less than the other
  exactly when the flags match and both review times are \<open>datetime\<close>s, the first strictly
  earlier; a review time that is no \<open>datetime\<close> makes the comparison false, and so do
  flags that differ, whatever the review times.

  History entries: they are equal exactly when the flags match and the prices per unit
  match, and less-than is as for listing entries, on \<open>timestamp\<close>.
\<close>

theorem entries_eq_lt:
  assumes "entry_class a = c" and "entry_class b = c"
    and "entry_getattr a ''hq'' = Inr ha" and "entry_getattr b ''hq'' = Inr hb"
  shows "(\<forall>x y. ha = J (JBool x) \<and> hb = J (JBool y) \<longrightarrow> py_eq ha hb = (x = y))
    \<and> (c = CurrentDataEntries \<longrightarrow>
          CurrentDataEntries_eq a b = Inr (py_eq ha hb)
        \<and> (\<not> py_eq ha hb \<longrightarrow> CurrentDataEntries_lt a b = Inr False)
        \<and> (\<forall>ta tb. entry_getattr a ''last_review_time'' = Inr ta
                  \<and> entry_getattr b ''last_review_time'' = Inr tb
              \<longrightarrow> CurrentDataEntries_lt a b
                    = Inr (py_eq ha hb \<and> (\<exists>x y. ta = Datetime x \<and> tb = Datetime y \<and> x < y))))
    \<and> (c = HistoryDataEntries \<longrightarrow>
          (\<not> py_eq ha hb \<longrightarrow> HistoryDataEntries_eq a b = Inr False)
        \<and> (\<forall>pa pb. entry_getattr a ''price_per_unit'' = Inr pa
                  \<and> entry_getattr b ''price_per_unit'' = Inr pb
              \<longrightarrow> HistoryDataEntries_eq a b = Inr (py_eq ha hb \<and> py_eq pa pb))
        \<and> (\<not> py_eq ha hb \<longrightarrow> HistoryDataEntries_lt a b = Inr False)
        \<and> (\<forall>ta tb. entry_getattr a ''timestamp'' = Inr ta
                  \<and> entry_getattr b ''timestamp'' = Inr tb
              \<longrightarrow> HistoryDataEntries_lt a b
                    = Inr (py_eq ha hb \<and> (\<exists>x y. ta = Datetime x \<and> tb = Datetime y \<and> x < y))))"
proof -
  have flags: "\<forall>x y. ha = J (JBool x) \<and> hb = J (JBool y) \<longrightarrow> py_eq ha hb = (x = y)"
    by auto
  have ceq: "CurrentDataEntries_eq a b = Inr (py_eq ha hb)"
    using assms by (simp add: CurrentDataEntries_eq_def)
  have clt0: "\<not> py_eq ha hb \<longrightarrow> CurrentDataEntries_lt a b = Inr False"
    using assms by (simp add: CurrentDataEntries_lt_def)
  have clt: "CurrentDataEntries_lt a b
               = Inr (py_eq ha hb \<and> (\<exists>x y. ta = Datetime x \<and> tb = Datetime y \<and> x < y))"
    if "entry_getattr a ''last_review_time'' = Inr ta"
      and "entry_getattr b ''last_review_time'' = Inr tb" for ta tb
    using assms that datetime_lt_iff [of ta tb]
    by (auto simp: CurrentDataEntries_lt_def)
  have heq0: "\<not> py_eq ha hb \<longrightarrow> HistoryDataEntries_eq a b = Inr False"
    using assms by (simp add: HistoryDataEntries_eq_def)
  have heq: "HistoryDataEntries_eq a b = Inr (py_eq ha hb \<and> py_eq pa pb)"
    if "entry_getattr a ''price_per_unit'' = Inr pa"
      and "entry_getattr b ''price_per_unit'' = Inr pb" for pa pb
    using assms that by (simp add: HistoryDataEntries_eq_def)
  have hlt0: "\<not> py_eq ha hb \<longrightarrow> HistoryDataEntries_lt a b = Inr False"
    using assms by (simp add: HistoryDataEntries_lt_def)
  have hlt: "HistoryDataEntries_lt a b
               = Inr (py_eq ha hb \<and> (\<exists>x y. ta = Datetime x \<and> tb = Datetime y \<and> x < y))"
    if "entry_getattr a ''timestamp'' = Inr ta"
      and "entry_getattr b ''timestamp'' = Inr tb" for ta tb
    using assms that datetime_lt_iff [of ta tb]
    by (auto simp: HistoryDataEntries_lt_def)
  from flags ceq clt0 clt heq0 heq hlt0 hlt show ?thesis by blast
qed

theorem entries_eq_lt_witness:
  "CurrentDataEntries_eq
     \<lparr>entry_class = CurrentDataEntries,
        entry_dict = [(''hq'', J (JBool True)), (''_last_review_time'', Datetime 1000000)]\<rparr>
     \<lparr>entry_class = CurrentDataEntries,
        entry_dict = [(''hq'', J (JBool True)), (''_last_review_time'', Datetime 5000000)]\<rparr>
     = Inr True
   \<and> CurrentDataEntries_lt
     \<lparr>entry_class = CurrentDataEntries,
        entry_dict = [(''hq'', J (JBool True)), (''_last_review_time'', Datetime 1000000)]\<rparr>
     \<lparr>entry_class = CurrentDataEntries,
        entry_dict = [(''hq'', J (JBool True)), (''_last_review_time'', Datetime 5000000)]\<rparr>
     = Inr True
   \<and> HistoryDataEntries_eq
     \<lparr>entry_class = HistoryDataEntries,
        entry_dict = [(''hq'', J (JBool True)), (''price_per_unit'', J (JInt 10)),
                      (''_timestamp'', Datetime 5000000)]\<rparr>
     \<lparr>entry_class = HistoryDataEntries,
        entry_dict = [(''hq'', J (JBool True)), (''price_per_unit'', J (JInt 12)),
                      (''_timestamp'', J (JInt 7))]\<rparr>
     = Inr False
   \<and> HistoryDataEntries_lt
     \<lparr>entry_class = HistoryDataEntries,
        entry_dict = [(''hq'', J (JBool True)), (''price_per_unit'', J (JInt 10)),
                      (''_timestamp'', Datetime 5000000)]\<rparr>
     \<lparr>entry_class = HistoryDataEntries,
        entry_dict = [(''hq'', J (JBool True)), (''price_per_unit'', J (JInt 12)),
                      (''_timestamp'', J (JInt 7))]\<rparr>
     = Inr False"
proof -
  let ?a = "\<lparr>entry_class = CurrentDataEntries,
              entry_dict = [(''hq'', J (JBool True)), (''_last_review_time'', Datetime 1000000)]\<rparr>"
  let ?b = "\<lparr>entry_class = CurrentDataEntries,
              entry_dict = [(''hq'', J (JBool True)), (''_last_review_time'', Datetime 5000000)]\<rparr>"
  let ?c = "\<lparr>entry_class = HistoryDataEntries,
              entry_dict = [(''hq'', J (JBool True)), (''price_per_unit'', J (JInt 10)),
                            (''_timestamp'', Datetime 5000000)]\<rparr>"
  let ?d = "\<lparr>entry_class = HistoryDataEntries,
              entry_dict = [(''hq'', J (JBool True)), (''price_per_unit'', J (JInt 12)),
                            (''_timestamp'', J (JInt 7))]\<rparr>"
  have hq: "entry_getattr ?a ''hq'' = Inr (J (JBool True))"
    "entry_getattr ?b ''hq'' = Inr (J (JBool True))"
    "entry_getattr ?c ''hq'' = Inr (J (JBool True))"
    "entry_getattr ?d ''hq'' = Inr (J (JBool True))"
    by (simp_all add: entry_getattr_def entry_lookup_def special_name_def)
  have t: "entry_getattr ?a ''last_review_time'' = Inr (Datetime 1000000)"
    "entry_getattr ?b ''last_review_time'' = Inr (Datetime 5000000)"
    "entry_getattr ?c ''timestamp'' = Inr (Datetime 5000000)"
    "entry_getattr ?d ''timestamp'' = Inr (J (JInt 7))"
    "entry_getattr ?c ''price_per_unit'' = Inr (J (JInt 10))"
    "entry_getattr ?d ''price_per_unit'' = Inr (J (JInt 12))"
    by (simp_all add: entry_getattr_def entry_lookup_def special_name_def)
  from entries_eq_lt [of ?a CurrentDataEntries ?b, OF _ _ hq(1) hq(2)] t(1,2)
  have 1: "CurrentDataEntries_eq ?a ?b = Inr True \<and> CurrentDataEntries_lt ?a ?b = Inr True"
    by simp
  from entries_eq_lt [of ?c HistoryDataEntries ?d, OF _ _ hq(3) hq(4)] t(3,4,5,6)
  have 2: "HistoryDataEntries_eq ?c ?d = Inr False \<and> HistoryDataEntries_lt ?c ?d = Inr False"
    by simp
  from 1 2 show ?thesis by simp
qed

section \<open>Timestamp fields\<close>

lemma fromtimestamp_seconds:
  "fromtimestamp (of_int i)
     = (if - 62135596800 \<le> i \<and> i \<le> 253402300799 then Some (i * 1000000) else None)"
proof -
  have "(of_int i * 1000000 :: rat) = of_int (i * 1000000)" by simp
  then have r: "round_half_even (of_int i * 1000000) = i * 1000000"
    by (simp only: round_half_even_of_int)
  have "(- 62135596800000000 \<le> i * 1000000 \<and> i * 1000000 \<le> 253402300799999999)
          = (- 62135596800 \<le> i \<and> i \<le> 253402300799)"
    by arith
  then show ?thesis
    unfolding fromtimestamp_def Let_def r by simp
qed

lemma fromtimestamp_milliseconds:
  "fromtimestamp (of_int i / 1000)
     = (if - 62135596800000 \<le> i \<and> i \<le> 253402300799999 then Some (i * 1000) else None)"
proof -
  have "(of_int i / 1000 * 1000000 :: rat) = of_int (i * 1000)" by simp
  then have r: "round_half_even (of_int i / 1000 * 1000000) = i * 1000"
    by (simp only: round_half_even_of_int)
  have "(- 62135596800000000 \<le> i * 1000 \<and> i * 1000 \<le> 253402300799999999)
          = (- 62135596800000 \<le> i \<and> i \<le> 253402300799999)"
    by arith
  then show ?thesis
    unfolding fromtimestamp_def Let_def r by simp
qed

lemma special_name_timestamps:
  "\<not> special_name ''last_review_time''" "\<not> special_name ''timestamp''"
  "\<not> special_name ''last_upload_time''"
  by (simp_all add: special_name_def)

text \<open>
  Claim C5 as the code has it, against \<open>HistoryDataEntries.timestamp\<close>: built from
  \<open>{"timestamp": "bad"}\<close>, the entry holds the string under neither \<open>timestamp\<close> nor
  \<open>_timestamp\<close> (only the copy of the input in \<open>_raw\<close> has it), and reading \<open>timestamp\<close>
  raises \<open>AttributeError\<close>.
\<close>

theorem timestamp_bad_not_retained:
  "HistoryDataEntries_init None (JDict [(''timestamp'', JStr ''bad'')])
     = Inr \<lparr>entry_class = HistoryDataEntries,
             entry_dict =
               [(''_raw'', J (JDict [(''timestamp'', JStr ''bad'')])),
                (''_universalis'', J JNull),
                (''_repr_keys'',
                 J (JList [JStr ''hq'', JStr ''quantity'', JStr ''price_per_unit'',
                           JStr ''world_name'', JStr ''timestamp'']))]\<rparr>
   \<and> entry_getattr
         \<lparr>entry_class = HistoryDataEntries,
            entry_dict =
              [(''_raw'', J (JDict [(''timestamp'', JStr ''bad'')])),
               (''_universalis'', J JNull),
               (''_repr_keys'',
                J (JList [JStr ''hq'', JStr ''quantity'', JStr ''price_per_unit'',
                          JStr ''world_name'', JStr ''timestamp'']))]\<rparr>
         ''timestamp''
       = Inl (AttributeError ''_timestamp'')
   \<and> entry_getattr
         \<lparr>entry_class = HistoryDataEntries,
            entry_dict =
              [(''_raw'', J (JDict [(''timestamp'', JStr ''bad'')])),
               (''_universalis'', J JNull),
               (''_repr_keys'',
                J (JList [JStr ''hq'', JStr ''quantity'', JStr ''price_per_unit'',
                          JStr ''world_name'', JStr ''timestamp'']))]\<rparr>
         ''timestamp''
       \<noteq> Inr (J (JStr ''bad''))"
  by code_simp

text \<open>
  Claim C5, amended. For each of the three timestamp fields (\<open>last_review_time\<close> of a
  listing entry, \<open>timestamp\<close> of a history entry, \<open>last_upload_time\<close> of an aggregate),
  setting the field never raises, and:
  if the value is an integer \<open>i\<close> (a boolean counts as 0 or 1), the field then reads as the
  \<open>datetime\<close> \<open>i\<close> seconds after the epoch, for \<open>last_upload_time\<close> \<open>i\<close> milliseconds after
  it, when that is a \<open>datetime\<close> (a year from 1 to 9999), and as the value itself when it is
  not;
  if the value is not an integer, nothing is stored: the record is as it was before.
\<close>

theorem timestamp_coercion:
  "(entry_class l = CurrentDataEntries \<longrightarrow>
      (\<exists>l'. entry_setattr l ''last_review_time'' value = Inr l'
          \<and> (\<forall>i. as_int value = Some i \<longrightarrow>
                entry_getattr l' ''last_review_time''
                  = Inr (if - 62135596800 \<le> i \<and> i \<le> 253402300799
                         then Datetime (i * 1000000) else J value))
          \<and> (as_int value = None \<longrightarrow> l' = l)))
   \<and> (entry_class h = HistoryDataEntries \<longrightarrow>
      (\<exists>h'. entry_setattr h ''timestamp'' value = Inr h'
          \<and> (\<forall>i. as_int value = Some i \<longrightarrow>
                entry_getattr h' ''timestamp''
                  = Inr (if - 62135596800 \<le> i \<and> i \<le> 253402300799
                         then Datetime (i * 1000000) else J value))
          \<and> (as_int value = None \<longrightarrow> h' = h)))
   \<and> (\<exists>d'. data_setattr g d ''last_upload_time'' value = Inr d'
          \<and> (\<forall>i. as_int value = Some i \<longrightarrow>
                data_getattr d' ''last_upload_time''
                  = Inr (V (if - 62135596800000 \<le> i \<and> i \<le> 253402300799999
                            then Datetime (i * 1000) else J value)))
          \<and> (as_int value = None \<longrightarrow> d' = d))"
proof -
  have l: "entry_setattr l ''last_review_time'' value = Inr (set_last_review_time value l)"
    if "entry_class l = CurrentDataEntries"
    using that by (simp add: entry_setattr_def special_name_timestamps)
  have l_int: "entry_getattr (set_last_review_time value l) ''last_review_time''
                 = Inr (if - 62135596800 \<le> i \<and> i \<le> 253402300799
                        then Datetime (i * 1000000) else J value)"
    if "entry_class l = CurrentDataEntries" and "as_int value = Some i" for i
    using that
    by (simp add: set_last_review_time_def fromtimestamp_seconds entry_getattr_def
        special_name_timestamps entry_lookup_def entry_store_def update_conv')
  have l_other: "set_last_review_time value l = l" if "as_int value = None"
    using that by (simp add: set_last_review_time_def)
  have h: "entry_setattr h ''timestamp'' value = Inr (set_timestamp value h)"
    if "entry_class h = HistoryDataEntries"
    using that by (simp add: entry_setattr_def special_name_timestamps)
  have h_int: "entry_getattr (set_timestamp value h) ''timestamp''
                 = Inr (if - 62135596800 \<le> i \<and> i \<le> 253402300799
                        then Datetime (i * 1000000) else J value)"
    if "entry_class h = HistoryDataEntries" and "as_int value = Some i" for i
    using that
    by (simp add: set_timestamp_def fromtimestamp_seconds entry_getattr_def
        special_name_timestamps entry_lookup_def entry_store_def update_conv')
  have h_other: "set_timestamp value h = h" if "as_int value = None"
    using that by (simp add: set_timestamp_def)
  have d: "data_setattr g d ''last_upload_time'' value = Inr (set_last_upload_time value d)"
    by (simp add: data_setattr_def special_name_timestamps)
  have d_int: "data_getattr (set_last_upload_time value d) ''last_upload_time''
                 = Inr (V (if - 62135596800000 \<le> i \<and> i \<le> 253402300799999
                           then Datetime (i * 1000) else J value))"
    if "as_int value = Some i" for i
    using that
    by (simp add: set_last_upload_time_def fromtimestamp_milliseconds data_getattr_def
        object_getattribute_def special_name_timestamps data_lookup_def data_store_def
        except_AttributeError_def update_conv')
  have d_other: "set_last_upload_time value d = d" if "as_int value = None"
    using that by (simp add: set_last_upload_time_def)
  from l l_int l_other h h_int h_other d d_int d_other show ?thesis by simp
qed

theorem timestamp_coercion_witness:
  "(\<exists>h'. entry_setattr \<lparr>entry_class = HistoryDataEntries, entry_dict = []\<rparr> ''timestamp''
            (JInt 1700000000) = Inr h'
         \<and> entry_getattr h' ''timestamp'' = Inr (Datetime 1700000000000000))
   \<and> entry_setattr \<lparr>entry_class = HistoryDataEntries, entry_dict = []\<rparr> ''timestamp''
        (JStr ''bad'') = Inr \<lparr>entry_class = HistoryDataEntries, entry_dict = []\<rparr>
   \<and> (\<exists>d'. data_setattr None \<lparr>data_class = CurrentData, data_dict = []\<rparr>
            ''last_upload_time'' (JInt 1700000000123) = Inr d'
         \<and> data_getattr d' ''last_upload_time'' = Inr (V (Datetime 1700000000123000)))"
proof -
  let ?h = "\<lparr>entry_class = HistoryDataEntries, entry_dict = []\<rparr>"
  let ?d = "\<lparr>data_class = CurrentData, data_dict = []\<rparr>"
  from timestamp_coercion [of ?h "JInt 1700000000" ?h None ?d]
  have 1: "\<exists>h'. entry_setattr ?h ''timestamp'' (JInt 1700000000) = Inr h'
             \<and> entry_getattr h' ''timestamp'' = Inr (Datetime 1700000000000000)"
    by simp
  from timestamp_coercion [of ?h "JStr ''bad''" ?h None ?d]
  have 2: "entry_setattr ?h ''timestamp'' (JStr ''bad'') = Inr ?h"
    by simp
  from timestamp_coercion [of ?h "JInt 1700000000123" ?h None ?d]
  have 3: "\<exists>d'. data_setattr None ?d ''last_upload_time'' (JInt 1700000000123) = Inr d'
             \<and> data_getattr d' ''last_upload_time'' = Inr (V (Datetime 1700000000123000))"
    by simp
  from 1 2 3 show ?thesis by blast
qed

section \<open>Reading attributes that were never set\<close>

text \<open>
  On an aggregate, a name that is not in the instance, is not special and is no member of
  the class reads as \<open>None\<close>: \<open>GenericData.__getattribute__\<close> catches the
  \<open>AttributeError\<close>.
\<close>

lemma data_getattr_absent:
  assumes "map_of (data_dict d) name = None" and "\<not> special_name name"
    and "name \<notin> {''_logger'', ''sort_listings'', ''last_upload_time'', ''listings'',
                   ''recent_history'', ''entries''}"
  shows "data_getattr d name = Inr (V (J JNull))"
  using assms
  by (simp add: data_getattr_def object_getattribute_def data_lookup_def
      except_AttributeError_def)

text \<open>
  The property \<open>entries\<close> of a \<open>HistoryData\<close> whose \<open>_entries\<close> was never set calls
  \<open>sorted(None)\<close>, a \<open>TypeError\<close>, which \<open>GenericData.__getattribute__\<close> does not catch.
\<close>

lemma HistoryData_entries_unset:
  "map_of (data_dict d) ''_entries'' = None \<Longrightarrow> data_class d = HistoryData
   \<Longrightarrow> data_getattr d ''entries'' = Inl TypeError"
  by (simp add: data_getattr_def object_getattribute_def data_lookup_def
      except_AttributeError_def special_name_def)

text \<open>
  Claim C4, at an input where the code departs from it. A listing entry built from a
  listing without a world name, as a query for one world returns it, has no attribute
  \<open>world_name\<close>, and reading it raises \<open>AttributeError\<close>: the entry classes derive from
  \<open>Generic\<close>, which has no \<open>__getattribute__\<close> of its own; only \<open>GenericData\<close>, the base
  of the two aggregates, turns the error into \<open>None\<close>.
\<close>

theorem entry_absent_attribute_raises:
  "CurrentDataEntries_init None (JDict [(''pricePerUnit'', JInt 100), (''hq'', JInt 0)])
     = Inr \<lparr>entry_class = CurrentDataEntries,
             entry_dict =
               [(''_raw'', J (JDict [(''pricePerUnit'', JInt 100), (''hq'', JInt 0)])),
                (''_universalis'', J JNull),
                (''price_per_unit'', J (JInt 100)),
                (''hq'', J (JBool False))]\<rparr>
   \<and> entry_getattr
         \<lparr>entry_class = CurrentDataEntries,
            entry_dict =
              [(''_raw'', J (JDict [(''pricePerUnit'', JInt 100), (''hq'', JInt 0)])),
               (''_universalis'', J JNull),
               (''price_per_unit'', J (JInt 100)),
               (''hq'', J (JBool False))]\<rparr>
         ''world_name''
     = Inl (AttributeError ''world_name'')"
  by code_simp

section \<open>The order of the stored lists\<close>

text \<open>
  Claim C7, at an input where the code departs from it. A \<open>CurrentData\<close> is built from
  three listings: of high quality and reviewed at second 5, of normal quality and reviewed at
  second 1, of high quality and reviewed at second 3. Entries of different quality are never
  less than one another, so \<open>sorted\<close>, which compares neighbours to find the run at the start
  of the list, takes the three as a run in order and leaves them as they came. The stored
  list has the review times 5, 1, 3: it is not ascending by review time, and the third entry
  stands after the first although it is less than the first.
\<close>

theorem listings_not_sorted_by_review_time:
  "\<exists>a e1 e2 e3.
      CurrentData_init None
        (JDict [(''listings'',
                 JList [JDict [(''hq'', JBool True), (''lastReviewTime'', JInt 5)],
                        JDict [(''hq'', JBool False), (''lastReviewTime'', JInt 1)],
                        JDict [(''hq'', JBool True), (''lastReviewTime'', JInt 3)]])])
        = Inr a
    \<and> data_getattr a ''listings'' = Inr (Entries [e1, e2, e3])
    \<and> entry_getattr e1 ''last_review_time'' = Inr (Datetime 5000000)
    \<and> entry_getattr e2 ''last_review_time'' = Inr (Datetime 1000000)
    \<and> entry_getattr e3 ''last_review_time'' = Inr (Datetime 3000000)
    \<and> entry_lt e3 e1 = Inr True"
proof -
  let ?d1 = "JDict [(''hq'', JBool True), (''lastReviewTime'', JInt 5)]"
  let ?d2 = "JDict [(''hq'', JBool False), (''lastReviewTime'', JInt 1)]"
  let ?d3 = "JDict [(''hq'', JBool True), (''lastReviewTime'', JInt 3)]"
  let ?data = "JDict [(''listings'', JList [?d1, ?d2, ?d3])]"
  let ?e1 = "\<lparr>entry_class = CurrentDataEntries,
               entry_dict = [(''_raw'', J ?d1), (''_universalis'', J JNull),
                             (''hq'', J (JBool True)),
                             (''_last_review_time'', Datetime 5000000)]\<rparr>"
  let ?e2 = "\<lparr>entry_class = CurrentDataEntries,
               entry_dict = [(''_raw'', J ?d2), (''_universalis'', J JNull),
                             (''hq'', J (JBool False)),
                             (''_last_review_time'', Datetime 1000000)]\<rparr>"
  let ?e3 = "\<lparr>entry_class = CurrentDataEntries,
               entry_dict = [(''_raw'', J ?d3), (''_universalis'', J JNull),
                             (''hq'', J (JBool True)),
                             (''_last_review_time'', Datetime 3000000)]\<rparr>"
  let ?a = "\<lparr>data_class = CurrentData,
              data_dict = [(''_raw'', V (J ?data)), (''_universalis'', V (J JNull)),
                           (''_listings'', Entries [?e1, ?e2, ?e3])]\<rparr>"
  have 1: "CurrentData_init None ?data = Inr ?a" by code_simp
  have 2: "data_getattr ?a ''listings'' = Inr (Entries [?e1, ?e2, ?e3])" by code_simp
  have 3: "entry_getattr ?e1 ''last_review_time'' = Inr (Datetime 5000000)" by code_simp
  have 4: "entry_getattr ?e2 ''last_review_time'' = Inr (Datetime 1000000)" by code_simp
  have 5: "entry_getattr ?e3 ''last_review_time'' = Inr (Datetime 3000000)" by code_simp
  have 6: "entry_lt ?e3 ?e1 = Inr True" by code_simp
  from 1 2 3 4 5 6 show ?thesis by blast
qed

section \<open>The global registry\<close>

text \<open>
  Storing under another name, and each setter, leaves \<open>_universalis\<close> as it is.
\<close>

lemma entry_setattr_universalis:
  assumes "entry_setattr e name v = Inr e'" and "name \<noteq> ''_universalis''"
  shows "map_of (entry_dict e') ''_universalis'' = map_of (entry_dict e) ''_universalis''"
  using assms
  by (auto simp: entry_setattr_def set_last_review_time_def set_timestamp_def
      entry_store_def update_conv' split: if_splits option.splits)

lemma CurrentDataEntries_items_universalis:
  assumes "CurrentDataEntries_items kvs e = Inr e'"
    and "\<forall>(k, v) \<in> set kvs. pep8_key_name k \<noteq> ''_universalis''"
  shows "map_of (entry_dict e') ''_universalis'' = map_of (entry_dict e) ''_universalis''"
  using assms
proof (induction kvs arbitrary: e)
  case Nil
  then show ?case by simp
next
  case (Cons kv kvs)
  obtain k v where kv: "kv = (k, v)" by (cases kv)
  from Cons.prems(1) kv obtain e1 v1
    where s: "entry_setattr e (pep8_key_name k) v1 = Inr e1"
      and r: "CurrentDataEntries_items kvs e1 = Inr e'"
    by (auto simp: Let_def split: sum.splits if_splits)
  from Cons.prems(2) kv have "pep8_key_name k \<noteq> ''_universalis''" by simp
  with s have "map_of (entry_dict e1) ''_universalis'' = map_of (entry_dict e) ''_universalis''"
    by (rule entry_setattr_universalis)
  moreover from Cons.IH [OF r] Cons.prems(2)
  have "map_of (entry_dict e') ''_universalis'' = map_of (entry_dict e1) ''_universalis''"
    by simp
  ultimately show ?case by simp
qed

lemma HistoryDataEntries_items_universalis:
  assumes "HistoryDataEntries_items kvs e = Inr e'"
    and "\<forall>(k, v) \<in> set kvs. pep8_key_name k \<noteq> ''_universalis''"
  shows "map_of (entry_dict e') ''_universalis'' = map_of (entry_dict e) ''_universalis''"
  using assms
proof (induction kvs arbitrary: e)
  case Nil
  then show ?case by simp
next
  case (Cons kv kvs)
  obtain k v where kv: "kv = (k, v)" by (cases kv)
  from Cons.prems(1) kv obtain e1 v1
    where s: "entry_setattr e (pep8_key_name k) v1 = Inr e1"
      and r: "HistoryDataEntries_items kvs e1 = Inr e'"
    by (auto simp: Let_def split: sum.splits if_splits)
  from Cons.prems(2) kv have "pep8_key_name k \<noteq> ''_universalis''" by simp
  with s have "map_of (entry_dict e1) ''_universalis'' = map_of (entry_dict e) ''_universalis''"
    by (rule entry_setattr_universalis)
  moreover from Cons.IH [OF r] Cons.prems(2)
  have "map_of (entry_dict e') ''_universalis'' = map_of (entry_dict e1) ''_universalis''"
    by simp
  ultimately show ?case by simp
qed

lemma data_setattr_universalis:
  assumes "data_setattr g d name v = Inr d'" and "name \<noteq> ''_universalis''"
  shows "map_of (data_dict d') ''_universalis'' = map_of (data_dict d) ''_universalis''"
  using assms
  by (auto simp: data_setattr_def set_last_upload_time_def set_listings_def
      set_recent_history_def set_entries_def data_store_def update_conv'
      split: if_splits option.splits sum.splits)

lemma CurrentData_items_universalis:
  assumes "CurrentData_items g kvs d = Inr d'"
    and "\<forall>(k, v) \<in> set kvs. pep8_key_name k \<noteq> ''_universalis''"
  shows "map_of (data_dict d') ''_universalis'' = map_of (data_dict d) ''_universalis''"
  using assms
proof (induction kvs arbitrary: d)
  case Nil
  then show ?case by simp
next
  case (Cons kv kvs)
  obtain k v where kv: "kv = (k, v)" by (cases kv)
  from Cons.prems(1) kv obtain d1 v1
    where s: "data_setattr g d (pep8_key_name k) v1 = Inr d1"
      and r: "CurrentData_items g kvs d1 = Inr d'"
    by (auto simp: Let_def split: sum.splits if_splits)
  from Cons.prems(2) kv have "pep8_key_name k \<noteq> ''_universalis''" by simp
  with s have "map_of (data_dict d1) ''_universalis'' = map_of (data_dict d) ''_universalis''"
    by (rule data_setattr_universalis)
  moreover from Cons.IH [OF r] Cons.prems(2)
  have "map_of (data_dict d') ''_universalis'' = map_of (data_dict d1) ''_universalis''"
    by simp
  ultimately show ?case by simp
qed

lemma HistoryData_items_universalis:
  assumes "HistoryData_items g kvs d = Inr d'"
    and "\<forall>(k, v) \<in> set kvs. pep8_key_name k \<noteq> ''_universalis''"
  shows "map_of (data_dict d') ''_universalis'' = map_of (data_dict d) ''_universalis''"
  using assms
proof (induction kvs arbitrary: d)
  case Nil
  then show ?case by simp
next
  case (Cons kv kvs)
  obtain k v where kv: "kv = (k, v)" by (cases kv)
  from Cons.prems(1) kv obtain d1 name
    where s: "data_setattr g d name v = Inr d1"
      and n: "name = ''entries'' \<or> name = pep8_key_name k"
      and r: "HistoryData_items g kvs d1 = Inr d'"
    by (auto simp: Let_def split: sum.splits if_splits)
  from Cons.prems(2) kv n have "name \<noteq> ''_universalis''" by auto
  with s have "map_of (data_dict d1) ''_universalis'' = map_of (data_dict d) ''_universalis''"
    by (rule data_setattr_universalis)
  moreover from Cons.IH [OF r] Cons.prems(2)
  have "map_of (data_dict d') ''_universalis'' = map_of (data_dict d1) ''_universalis''"
    by simp
  ultimately show ?case by simp
qed

text \<open>Reading \<open>_universalis\<close>: the name is neither special nor a property.\<close>

lemma entry_getattr_universalis:
  "entry_getattr e ''_universalis''
     = (case map_of (entry_dict e) ''_universalis'' of
          Some v \<Rightarrow> Inr v | None \<Rightarrow> Inl (AttributeError ''_universalis''))"
  by (simp add: entry_getattr_def entry_lookup_def special_name_def)

lemma data_getattr_universalis:
  "data_getattr d ''_universalis''
     = (case map_of (data_dict d) ''_universalis'' of
          Some v \<Rightarrow> Inr v | None \<Rightarrow> Inr (V (J JNull)))"
  by (simp add: data_getattr_def object_getattribute_def data_lookup_def special_name_def
      except_AttributeError_def split: option.splits)

text \<open>
  Claim C10. Constructing a client (with \<open>items.json\<close> in place, so that the constructor
  returns) sets the global \<open>API_CLASS\<close> to that client, whatever it held. Every record
  constructor, \<open>Generic.__init__\<close> first, stores under \<open>_universalis\<close> what the global holds
  at that moment: the client constructed last, or \<open>None\<close> when there was none; and the
  record still holds it when its constructor returns, provided that no key of the data is
  itself normalized to \<open>_universalis\<close>. So after a client \<open>i\<close> and then a client \<open>j\<close> have
  been constructed, a record that a call on client \<open>i\<close> builds refers to client \<open>j\<close>.
\<close>

theorem records_capture_last_client:
  assumes "\<forall>(k, v) \<in> set kvs. pep8_key_name k \<noteq> ''_universalis''"
    and "captured = (case g of None \<Rightarrow> J JNull | Some c \<Rightarrow> Client c)"
  shows "snd (UniversalisAPI_init i s True now g) = Some i
    \<and> (\<exists>self. fst (UniversalisAPI_init i s True now g) = Inr self \<and> ident self = i)
    \<and> map_of (Generic_init g data) ''_universalis'' = Some captured
    \<and> (\<forall>e. CurrentDataEntries_init g (JDict kvs) = Inr e
            \<longrightarrow> entry_getattr e ''_universalis'' = Inr captured)
    \<and> (\<forall>e. HistoryDataEntries_init g (JDict kvs) = Inr e
            \<longrightarrow> entry_getattr e ''_universalis'' = Inr captured)
    \<and> (\<forall>d. CurrentData_init g (JDict kvs) = Inr d
            \<longrightarrow> data_getattr d ''_universalis'' = Inr (V captured))
    \<and> (\<forall>d. HistoryData_init g (JDict kvs) = Inr d
            \<longrightarrow> data_getattr d ''_universalis'' = Inr (V captured))
    \<and> (\<forall>j s' now' self_i w srv item world_or_dc n m q trim d self' w'.
          (\<forall>k u. snd (snd (srv k u)) = JDict kvs)
          \<and> get_current_data srv
              (snd (UniversalisAPI_init j s' True now'
                      (snd (UniversalisAPI_init i s True now g))))
              self_i w item world_or_dc n m q trim = (Inr d, self', w')
          \<longrightarrow> data_getattr d ''_universalis'' = Inr (V (Client j)))"
proof -
  have init: "snd (UniversalisAPI_init i s True now g) = Some i"
    "\<exists>self. fst (UniversalisAPI_init i s True now g) = Inr self \<and> ident self = i"
    by (simp_all add: UniversalisAPI_init_def)
  have gen: "map_of (Generic_init g data') ''_universalis'' = Some captured" for data'
    using assms(2) by (simp add: Generic_init_def)
  have ce: "entry_getattr e ''_universalis'' = Inr captured"
    if "CurrentDataEntries_init g (JDict kvs) = Inr e" for e
    using CurrentDataEntries_items_universalis [OF _ assms(1)] that gen
    by (simp add: CurrentDataEntries_init_def entry_getattr_universalis)
  have he: "entry_getattr e ''_universalis'' = Inr captured"
    if "HistoryDataEntries_init g (JDict kvs) = Inr e" for e
    using HistoryDataEntries_items_universalis [OF _ assms(1)] that gen
    by (simp add: HistoryDataEntries_init_def entry_getattr_universalis entry_store_def
        update_conv')
  have cd_any: "data_getattr d ''_universalis''
                  = Inr (V (case g' of None \<Rightarrow> J JNull | Some c \<Rightarrow> Client c))"
    if "CurrentData_init g' (JDict kvs) = Inr d" for d g'
    using CurrentData_items_universalis [OF _ assms(1)] that
    by (simp add: CurrentData_init_def data_getattr_universalis Generic_init_def)
  have cd: "data_getattr d ''_universalis'' = Inr (V captured)"
    if "CurrentData_init g (JDict kvs) = Inr d" for d
    using cd_any [OF that] assms(2) by simp
  have hd: "data_getattr d ''_universalis'' = Inr (V captured)"
    if "HistoryData_init g (JDict kvs) = Inr d" for d
    using HistoryData_items_universalis [OF _ assms(1)] that assms(2)
    by (simp add: HistoryData_init_def data_getattr_universalis Generic_init_def
        data_store_def update_conv')
  have aliased: "data_getattr d ''_universalis'' = Inr (V (Client j))"
    if body: "\<forall>k u. snd (snd (srv k u)) = JDict kvs"
      and call: "get_current_data srv
              (snd (UniversalisAPI_init j s' True now'
                      (snd (UniversalisAPI_init i s True now g))))
              self_i w item world_or_dc n m q trim = (Inr d, self', w')"
    for j s' now' self_i w srv item world_or_dc n m q trim d self' w'
  proof -
    have g2: "snd (UniversalisAPI_init j s' True now'
                (snd (UniversalisAPI_init i s True now g))) = Some j"
      by (simp add: UniversalisAPI_init_def)
    from call obtain url res a1 w1
      where req: "request srv url self_i w = (Inr res, a1, w1)"
        and built: "CurrentData_init (Some j) res = Inr d"
      unfolding g2 get_current_data_def Let_def
      by (auto split: prod.splits sum.splits)
    obtain lat st b where srv: "srv (length (sent w)) url = (lat, st, b)"
      using prod_cases3 by blast
    with body have b: "b = JDict kvs" by (metis snd_conv)
    have "res = JDict kvs"
    proof (cases "max_api_calls self_i = 0")
      case True
      with req show ?thesis by (simp add: request_zero)
    next
      case False
      from request_outcome [of srv w url lat st b self_i, OF srv False] req b
      show ?thesis by (auto simp: Let_def split: if_splits)
    qed
    with built cd_any [of "Some j" d] show ?thesis by simp
  qed
  from init gen ce he cd hd aliased show ?thesis by blast
qed

theorem records_capture_last_client_witness:
  "snd (UniversalisAPI_init 1 None True 0 None) = Some 1
   \<and> snd (UniversalisAPI_init 2 None True 0 (Some 1)) = Some 2
   \<and> (\<exists>e. CurrentDataEntries_init (Some 2) (JDict [(''hq'', JInt 1)]) = Inr e
          \<and> entry_getattr e ''_universalis'' = Inr (Client 2))
   \<and> (\<exists>e. HistoryDataEntries_init None (JDict [(''hq'', JInt 1)]) = Inr e
          \<and> entry_getattr e ''_universalis'' = Inr (J JNull))"
proof -
  have k: "\<forall>(k, v) \<in> set [(''hq'', JInt 1)]. pep8_key_name k \<noteq> ''_universalis''"
    by code_simp
  note none = records_capture_last_client [where g = None and i = 1 and s = None and now = 0,
      OF k refl]
  note some = records_capture_last_client [where g = "Some 1" and i = 2 and s = None
      and now = 0, OF k refl]
  note last = records_capture_last_client [where g = "Some 2", OF k refl]
  have 1: "snd (UniversalisAPI_init 1 None True 0 None) = Some 1"
    using none by blast
  have 2: "snd (UniversalisAPI_init 2 None True 0 (Some 1)) = Some 2"
    using some by blast
  have "CurrentDataEntries_init (Some 2) (JDict [(''hq'', JInt 1)])
          = Inr \<lparr>entry_class = CurrentDataEntries,
                  entry_dict = [(''_raw'', J (JDict [(''hq'', JInt 1)])),
                                (''_universalis'', Client 2), (''hq'', J (JBool True))]\<rparr>"
    by code_simp
  with last
  have 3: "\<exists>e. CurrentDataEntries_init (Some 2) (JDict [(''hq'', JInt 1)]) = Inr e
             \<and> entry_getattr e ''_universalis'' = Inr (Client 2)"
    by simp
  have "HistoryDataEntries_init None (JDict [(''hq'', JInt 1)])
          = Inr \<lparr>entry_class = HistoryDataEntries,
                  entry_dict = [(''_raw'', J (JDict [(''hq'', JInt 1)])),
                                (''_universalis'', J JNull),
                                (''_repr_keys'',
                                 J (JList [JStr ''hq'', JStr ''quantity'',
                                           JStr ''price_per_unit'', JStr ''world_name'',
                                           JStr ''timestamp''])),
                                (''hq'', J (JBool True))]\<rparr>"
    by code_simp
  with none
  have 4: "\<exists>e. HistoryDataEntries_init None (JDict [(''hq'', JInt 1)]) = Inr e
             \<and> entry_getattr e ''_universalis'' = Inr (J JNull)"
    by simp
  from 1 2 3 4 show ?thesis by blast
qed

section \<open>Bulk queries\<close>

lemma request_keeps_fields:
  assumes "request srv url self w = (r, self', w')"
  shows "base_api_url self' = base_api_url self \<and> multi_item_fields self' = multi_item_fields self
       \<and> max_api_calls self' = max_api_calls self"
  using assms
  by (auto simp: request_def session_get_def Let_def split: if_splits prod.splits)

lemma length_py_range:
  "0 < step \<Longrightarrow> length (py_range start stop step) = (stop - start + (step - 1)) div step"
proof (induction start stop step rule: py_range.induct)
  case (1 start stop step)
  show ?case
  proof (cases "start < stop")
    case True
    with 1 have "length (py_range (start + step) stop step)
                   = (stop - (start + step) + (step - 1)) div step"
      by simp
    moreover have "(stop - start + (step - 1)) div step
                     = Suc ((stop - (start + step) + (step - 1)) div step)"
    proof (cases "start + step \<le> stop")
      case True
      define a where "a = stop - (start + step) + (step - 1)"
      from True have "stop - start + (step - 1) = a + step" by (simp add: a_def)
      then have "(stop - start + (step - 1)) div step = (a + step) div step"
        by (simp only:)
      also have "\<dots> = Suc (a div step)" using "1.prems" by simp
      finally show ?thesis by (simp only: a_def)
    next
      case False
      with \<open>start < stop\<close> "1.prems"
      have "(stop - start + (step - 1)) div step = 1"
        by (intro div_nat_eqI) auto
      moreover from False "1.prems" have "(stop - (start + step) + (step - 1)) div step = 0"
        by simp
      ultimately show ?thesis by (metis One_nat_def)
    qed
    ultimately show ?thesis
      using True "1.prems" by (simp add: py_range.simps [of start stop step])
  next
    case False
    then show ?thesis
      using "1.prems" by (simp add: py_range.simps [of start stop step])
  qed
qed

text \<open>
  Against a server that answers every request with status 200 and a body without \<open>items\<close>,
  the loop sends one request for every remaining \<open>i\<close>, and every one of them has the URL
  made of the whole \<open>query\<close>.
\<close>

lemma bulk_loop_sent:
  assumes "\<forall>k u. srv k u = (latency, 200, JDict [])" and "max_api_calls self \<noteq> 0"
  shows "map snd (sent (snd (snd
           (bulk_loop srv g query world_or_dc n m q trim is results self w))))
         = map snd (sent w)
           @ replicate (length is)
               ((base_api_url self @ ''/'' @ world_or_dc @ ''/'' @ join '','' query
                 @ ''?listings='' @ str_int n @ ''&entries='' @ str_int m @ ''&hq='' @ q)
                @ (if trim then multi_item_fields self else []))"
  using assms(2)
proof (induction "is" arbitrary: results self w)
  case Nil
  show ?case by simp
next
  case (Cons i "is")
  let ?u = "(base_api_url self @ ''/'' @ world_or_dc @ ''/'' @ join '','' query
             @ ''?listings='' @ str_int n @ ''&entries='' @ str_int m @ ''&hq='' @ q)
            @ (if trim then multi_item_fields self else [])"
  obtain r self' w' where req: "request srv ?u self w = (r, self', w')"
    using prod_cases3 by blast
  from assms(1) have srv: "srv (length (sent w)) ?u = (latency, 200, JDict [])" by simp
  from request_outcome [of srv w ?u latency 200 "JDict []" self, OF srv Cons.prems] req
  have r: "r = Inr (JDict [])" and s: "map snd (sent w') = map snd (sent w) @ [?u]"
    by (auto simp: Let_def split: if_splits)
  from request_keeps_fields [OF req]
  have keep: "base_api_url self' = base_api_url self"
    "multi_item_fields self' = multi_item_fields self" "max_api_calls self' \<noteq> 0"
    using Cons.prems by simp_all
  have items: "bulk_items g (JDict []) = Inr []" by (simp add: bulk_items_def)
  have "bulk_loop srv g query world_or_dc n m q trim (i # is) results self w
          = bulk_loop srv g query world_or_dc n m q trim is results self' w'"
    using req r items by (cases trim) (simp_all add: Let_def)
  with Cons.IH [of self' results w', OF keep(3)] keep s show ?case
    by (simp add: replicate_append_same)
qed

text \<open>
  So a bulk query for \<open>n\<close> items sends \<open>\<lceil>n / 100\<rceil>\<close> requests, as many as there are batches,
  and each of them asks for all \<open>n\<close> items.
\<close>

lemma get_bulk_current_data_sent:
  assumes "\<forall>k u. srv k u = (latency, 200, JDict [])" and "max_api_calls self \<noteq> 0"
  shows "map snd (sent (snd (snd
           (get_bulk_current_data srv g self w items world_or_dc n m q trim))))
         = map snd (sent w)
           @ replicate ((length items + 99) div 100)
               ((base_api_url self @ ''/'' @ world_or_dc @ ''/''
                 @ join '','' (map item_str items)
                 @ ''?listings='' @ str_int n @ ''&entries='' @ str_int m @ ''&hq='' @ q)
                @ (if trim then multi_item_fields self else []))"
proof -
  have "length (py_range 0 (length (map item_str items)) 100) = (length items + 99) div 100"
    by (simp add: length_py_range)
  with bulk_loop_sent [OF assms, of g "map item_str items" world_or_dc n m q trim
      "py_range 0 (length (map item_str items)) 100" "[]" w]
  show ?thesis
    unfolding get_bulk_current_data_def Let_def by simp
qed

text \<open>
  Claim C1, at an input where the code departs from it. A bulk query for the 150 item IDs
  1 to 150 (every response has status 200 and no \<open>items\<close>) sends two requests, one for each
  \<open>i\<close> of \<open>range(0, 150, 100)\<close>; but the loop never uses \<open>i\<close>, and the URL of each request
  joins the whole of \<open>query\<close>: both requests carry all 150 IDs, where the first should
  carry the IDs 1 to 100 and the second the IDs 101 to 150.
\<close>

theorem bulk_requests_carry_all_ids:
  "map snd (sent (snd (snd
      (get_bulk_current_data (\<lambda>k u. (0, 200, JDict [])) None
         \<lparr>ident = 0, session = None, base_api_url = ''https://universalis.app/api/v2'',
            api_call_time = 0, max_api_calls = 20, single_item_fields = [],
            multi_item_fields = []\<rparr>
         \<lparr>clock = 0, sent = []\<rparr>
         (map ItemInt [1..150]) ''Crystal'' 10 10 ''0'' False))))
     = [''https://universalis.app/api/v2/Crystal/'' @ join '','' (map str_int [1..150])
          @ ''?listings=10&entries=10&hq=0'',
        ''https://universalis.app/api/v2/Crystal/'' @ join '','' (map str_int [1..150])
          @ ''?listings=10&entries=10&hq=0'']"
proof -
  let ?srv = "\<lambda>(k::nat) (u::string). (0::int, 200::int, JDict [])"
  let ?self = "\<lparr>ident = 0, session = None, base_api_url = ''https://universalis.app/api/v2'',
                 api_call_time = 0, max_api_calls = 20, single_item_fields = [],
                 multi_item_fields = []\<rparr>"
  have srv: "\<forall>k u. ?srv k u = (0, 200, JDict [])" by simp
  have ne: "max_api_calls ?self \<noteq> 0" by simp
  have n: "(length (map ItemInt [1..150]) + 99) div 100 = 2" by simp
  have ten: "str_int 10 = ''10''" by code_simp
  have q: "map item_str (map ItemInt [1..150]) = map str_int [1..150]"
    by (simp only: map_map comp_def item_str.simps)
  show ?thesis
    using get_bulk_current_data_sent [OF srv ne, of None "\<lparr>clock = 0, sent = []\<rparr>"
        "map ItemInt [1..150]" "''Crystal''" 10 10 "''0''" False]
    unfolding n q ten by (simp add: numeral_2_eq_2)
qed

end
